theory Spec2Isabelle
  imports Main "HOL-Library.Sublist" "HOL-Library.Multiset"
begin

section \<open>Values exchanged with the client\<close>

text \<open>
  A request body is a JSON object; Flask hands it to the handlers as a Python dict.
  The dict is an association list of its items (keys distinct, in insertion order):
  \<open>data.get(k)\<close> is \<open>map_of data k\<close> and \<open>data.values()\<close> is \<open>map snd data\<close>.
  A Python \<open>str\<close> is a \<open>string\<close>, one \<open>char\<close> per code point, which covers the
  code points below 256. JSON numbers with a fractional part are outside the model.
\<close>

datatype json =
    JNull
  | JBool bool
  | JInt int
  | JStr string
  | JArr "json list"
  | JObj "(string \<times> json) list"

type_synonym payload = "(string \<times> json) list"

text \<open>Python's truth value of a decoded JSON value (\<open>if data['deadline']\<close>).\<close>

fun truthy :: "json \<Rightarrow> bool" where
  "truthy JNull = False"
| "truthy (JBool b) = b"
| "truthy (JInt n) = (n \<noteq> 0)"
| "truthy (JStr s) = (s \<noteq> [])"
| "truthy (JArr xs) = (xs \<noteq> [])"
| "truthy (JObj kvs) = (kvs \<noteq> [])"

text \<open>Exceptions that leave a function of the service.\<close>

datatype exn =
    TypeError
  | KeyError string
  | AttributeError
  | PoolError
  | StoreError string

text \<open>
  \<open>str(e)\<close>: the text of an error of the store, and the quoted key of a \<open>KeyError\<close>.
  The interpreter's wording for the other exceptions is not modelled; no \<open>try\<close> block
  that formats \<open>str(e)\<close> can catch one of them.
\<close>

fun exn_str :: "exn \<Rightarrow> string" where
  "exn_str (StoreError m) = m"
| "exn_str (KeyError k) = [CHR 0x27] @ k @ [CHR 0x27]"
| "exn_str TypeError = []"
| "exn_str AttributeError = []"
| "exn_str PoolError = []"

text \<open>A calendar date, and a point in time as \<open>datetime.now(timezone.utc)\<close> reads it.\<close>

record date =
  year :: nat
  month :: nat
  day :: nat

record datetime = date +
  hour :: nat
  minute :: nat
  second :: nat
  microsecond :: nat

text \<open>A task as \<open>GET /tasks\<close> serialises it, and the bodies of the responses.\<close>

record task_json =
  j_id :: int
  j_name :: string
  j_progress :: int
  j_assigned_to :: "string option"
  j_deadline :: "string option"
  j_priority :: string

datatype body =
    ErrorBody string
  | MessageBody string
  | CreatedBody string int
  | TasksBody "task_json list"

type_synonym response = "body \<times> nat"

section \<open>Regular expressions and date parsing used by the validation\<close>

text \<open>
  The classes \<open>\w\<close> and \<open>\s\<close> of Python's \<open>re\<close> on \<open>str\<close> patterns, for the code points
  below 256.
\<close>

definition is_word_char :: "char \<Rightarrow> bool" where
  "is_word_char c =
     (let n = (of_char c :: nat) in
        (48 \<le> n \<and> n \<le> 57) \<or> (65 \<le> n \<and> n \<le> 90) \<or> n = 95 \<or> (97 \<le> n \<and> n \<le> 122)
        \<or> n = 170 \<or> n = 178 \<or> n = 179 \<or> n = 181 \<or> n = 185 \<or> n = 186
        \<or> (188 \<le> n \<and> n \<le> 190) \<or> (192 \<le> n \<and> n \<le> 214) \<or> (216 \<le> n \<and> n \<le> 246)
        \<or> (248 \<le> n \<and> n \<le> 255))"

definition is_space_char :: "char \<Rightarrow> bool" where
  "is_space_char c =
     (let n = (of_char c :: nat) in
        (9 \<le> n \<and> n \<le> 13) \<or> (28 \<le> n \<and> n \<le> 32) \<or> n = 133 \<or> n = 160)"

text \<open>The character class \<open>[\w\s\-()]\<close>.\<close>

definition name_char :: "char \<Rightarrow> bool" where
  "name_char c =
     (is_word_char c \<or> is_space_char c \<or> c = CHR ''-'' \<or> c = CHR ''('' \<or> c = CHR '')'')"

text \<open>
  \<open>re.match(r'^[\w\s\-()]{3,100}$', s)\<close>. Without \<open>re.MULTILINE\<close> the \<open>$\<close> matches at the
  end of the string and also just before a newline that ends the string, so a string of
  101 characters whose last one is a newline matches too.
\<close>

definition name_match :: "string \<Rightarrow> bool" where
  "name_match s =
     (list_all name_char s \<and>
      ((3 \<le> length s \<and> length s \<le> 100) \<or> (length s = 101 \<and> last s = CHR 0x0A)))"

text \<open>
  \<open>re.IGNORECASE\<close> on the code points below 256, for a pattern of lower-case ASCII
  letters: the subject is folded to lower case.
\<close>

definition lower_char :: "char \<Rightarrow> char" where
  "lower_char c =
     (let n = (of_char c :: nat) in if 65 \<le> n \<and> n \<le> 90 then char_of (n + 32) else c)"

definition sql_injection_alternatives :: "string list" where
  "sql_injection_alternatives =
     ['';'', ''--'', ''union'', ''select'', ''insert'', ''update'', ''delete'', ''drop'']"

text \<open>
  \<open>sql_injection_pattern.search(value)\<close> for the pattern
  \<open>(;|--|union|select|insert|update|delete|drop)\<close> compiled with \<open>re.IGNORECASE\<close>:
  some alternative occurs somewhere in the value.
\<close>

definition sql_injection_search :: "string \<Rightarrow> bool" where
  "sql_injection_search v =
     list_ex (\<lambda>alt. sublist alt (map lower_char v)) sql_injection_alternatives"

definition is_digit :: "char \<Rightarrow> bool" where
  "is_digit c = (48 \<le> (of_char c :: nat) \<and> (of_char c :: nat) \<le> 57)"

definition digit_val :: "char \<Rightarrow> nat" where
  "digit_val c = of_char c - 48"

definition is_leap :: "nat \<Rightarrow> bool" where
  "is_leap y = (y mod 4 = 0 \<and> (y mod 100 \<noteq> 0 \<or> y mod 400 = 0))"

definition days_in_month :: "nat \<Rightarrow> nat \<Rightarrow> nat" where
  "days_in_month y m =
     (if m = 2 then (if is_leap y then 29 else 28)
      else if m = 4 \<or> m = 6 \<or> m = 9 \<or> m = 11 then 30 else 31)"

text \<open>The directive \<open>%m\<close> of \<open>strptime\<close>: the regular expression \<open>1[0-2]|0[1-9]|[1-9]\<close>.\<close>

definition month_directive :: "string \<Rightarrow> nat option" where
  "month_directive t =
     (case t of
        [a] \<Rightarrow> if is_digit a \<and> a \<noteq> CHR ''0'' then Some (digit_val a) else None
      | [a, b] \<Rightarrow>
          if a = CHR ''1'' \<and> is_digit b \<and> digit_val b \<le> 2 then Some (10 + digit_val b)
          else if a = CHR ''0'' \<and> is_digit b \<and> b \<noteq> CHR ''0'' then Some (digit_val b)
          else None
      | _ \<Rightarrow> None)"

text \<open>The directive \<open>%d\<close>: \<open>3[0-1]|[1-2]\d|0[1-9]|[1-9]| [1-9]\<close>.\<close>

definition day_directive :: "string \<Rightarrow> nat option" where
  "day_directive t =
     (case t of
        [a] \<Rightarrow> if is_digit a \<and> a \<noteq> CHR ''0'' then Some (digit_val a) else None
      | [a, b] \<Rightarrow>
          if a = CHR ''3'' \<and> is_digit b \<and> digit_val b \<le> 1 then Some (30 + digit_val b)
          else if (a = CHR ''1'' \<or> a = CHR ''2'') \<and> is_digit b
            then Some (10 * digit_val a + digit_val b)
          else if (a = CHR ''0'' \<or> a = CHR '' '') \<and> is_digit b \<and> b \<noteq> CHR ''0''
            then Some (digit_val b)
          else None
      | _ \<Rightarrow> None)"

text \<open>
  \<open>datetime.strptime(s, '%Y-%m-%d')\<close>; \<open>None\<close> is its \<open>ValueError\<close>. The string has to be
  four digits, a hyphen, a month, a hyphen and a day, with nothing left over, and the
  date has to exist (year 0 and the 30th of February do not).
\<close>

definition strptime :: "string \<Rightarrow> datetime option" where
  "strptime s =
     (case s of
        y1 # y2 # y3 # y4 # sep # rest \<Rightarrow>
          if is_digit y1 \<and> is_digit y2 \<and> is_digit y3 \<and> is_digit y4 \<and> sep = CHR ''-'' then
            (case dropWhile (\<lambda>c. c \<noteq> CHR ''-'') rest of
               [] \<Rightarrow> None
             | _ # dtok \<Rightarrow>
                 (case (month_directive (takeWhile (\<lambda>c. c \<noteq> CHR ''-'') rest),
                        day_directive dtok) of
                    (Some m, Some d) \<Rightarrow>
                      (let y = 1000 * digit_val y1 + 100 * digit_val y2
                               + 10 * digit_val y3 + digit_val y4
                       in if 1 \<le> y \<and> d \<le> days_in_month y m
                          then Some \<lparr>year = y, month = m, day = d,
                                     hour = 0, minute = 0, second = 0, microsecond = 0\<rparr>
                          else None)
                  | _ \<Rightarrow> None))
          else None
      | _ \<Rightarrow> None)"

text \<open>The order \<open><\<close> of two \<open>datetime\<close> values of the same time zone.\<close>

definition datetime_less :: "datetime \<Rightarrow> datetime \<Rightarrow> bool" where
  "datetime_less a b =
     (year a < year b \<or> (year a = year b \<and>
     (month a < month b \<or> (month a = month b \<and>
     (day a < day b \<or> (day a = day b \<and>
     (hour a < hour b \<or> (hour a = hour b \<and>
     (minute a < minute b \<or> (minute a = minute b \<and>
     (second a < second b \<or> (second a = second b \<and>
      microsecond a < microsecond b))))))))))))"

section \<open>Validation (\<open>validate_task_data\<close>)\<close>

definition reject :: "string \<Rightarrow> exn + response option" where
  "reject msg = Inr (Some (ErrorBody msg, 400))"

text \<open>
  \<open>validate_task_data\<close> of \<open>app/main.py\<close>. The result is \<open>Inr None\<close> for Python's
  \<open>None\<close> (accepted), \<open>Inr (Some (body, 400))\<close> for a rejection, and \<open>Inl e\<close> when the
  function raises: \<open>re.match\<close> and \<open>strptime\<close> raise \<open>TypeError\<close> on a value that is not
  a string, and only \<open>ValueError\<close> is caught. The second argument is the reading of the
  clock.
\<close>

definition validate_task_data :: "payload \<Rightarrow> datetime \<Rightarrow> exn + response option" where
  "validate_task_data data now =
     (let scan =
        (if list_ex (\<lambda>v. case v of JStr s \<Rightarrow> sql_injection_search s | _ \<Rightarrow> False)
              (map snd data)
         then reject ''Invalid input detected''
         else Inr None)
      in
      case (case map_of data ''name'' of None \<Rightarrow> JStr [] | Some v \<Rightarrow> v) of
        JStr name \<Rightarrow>
          if \<not> name_match name
            then reject ''Invalid task name (3-100 alphanumeric characters)''
          else if map_of data ''priority'' \<notin> Some ` JStr ` {''Low'', ''Medium'', ''High''}
            then reject ''Invalid priority value''
          else
            (case map_of data ''deadline'' of
               None \<Rightarrow> scan
             | Some dl \<Rightarrow>
                 if truthy dl then
                   (case dl of
                      JStr s \<Rightarrow>
                        (case strptime s of
                           None \<Rightarrow> reject ''Invalid deadline format. Use YYYY-MM-DD.''
                         | Some deadline_dt \<Rightarrow>
                             if datetime_less deadline_dt now
                               then reject ''Deadline cannot be in the past''
                             else scan)
                    | _ \<Rightarrow> Inl TypeError)
                 else scan)
      | _ \<Rightarrow> Inl TypeError)"

text \<open>
  \<open>validate_task_data\<close> of \<open>backend/app.py\<close>: the same three checks against the local
  clock, and no scan.
\<close>

definition backend_validate_task_data :: "payload \<Rightarrow> datetime \<Rightarrow> exn + response option" where
  "backend_validate_task_data data now =
     (case (case map_of data ''name'' of None \<Rightarrow> JStr [] | Some v \<Rightarrow> v) of
        JStr name \<Rightarrow>
          if \<not> name_match name
            then reject ''Invalid task name (3-100 alphanumeric characters)''
          else if map_of data ''priority'' \<notin> Some ` JStr ` {''Low'', ''Medium'', ''High''}
            then reject ''Invalid priority value''
          else
            (case map_of data ''deadline'' of
               None \<Rightarrow> Inr None
             | Some dl \<Rightarrow>
                 if truthy dl then
                   (case dl of
                      JStr s \<Rightarrow>
                        (case strptime s of
                           None \<Rightarrow> reject ''Invalid deadline format. Use YYYY-MM-DD.''
                         | Some deadline_dt \<Rightarrow>
                             if datetime_less deadline_dt now
                               then reject ''Deadline cannot be in the past''
                             else Inr None)
                    | _ \<Rightarrow> Inl TypeError)
                 else Inr None)
      | _ \<Rightarrow> Inl TypeError)"

section \<open>The store, the connection pool and the faults of a request\<close>

text \<open>
  Modelled from the spec: the persisted schema, which is not part of the sources. It is
  a single table keyed by an integer \<open>id\<close> that the store assigns, with columns \<open>name\<close>
  (text), \<open>progress\<close> (integer), \<open>assigned_to\<close> (nullable text), \<open>deadline\<close> (nullable
  date) and \<open>priority\<close> (text), and no further constraint.
\<close>

record task_row =
  row_id :: int
  row_name :: string
  row_progress :: int
  row_assigned_to :: "string option"
  row_deadline :: "date option"
  row_priority :: string

text \<open>
  What a handler does to its connection, in order. \<open>Acquire\<close> and \<open>Release\<close> are logged
  when a connection is handed out and given back; the others are logged when the call
  is made, whether it raises or not.
\<close>

datatype event = Acquire | Execute | Fetch | Commit | Rollback | Release

text \<open>
  The state of the service: the committed table and the sequence behind \<open>id\<close>, the table
  as the open transaction of the handler's connection sees it (\<open>None\<close> outside a
  transaction), the number of connections handed out, and the events so far.
\<close>

record state =
  tasks :: "task_row list"
  next_id :: int
  pending :: "task_row list option"
  in_use :: nat
  trace :: "event list"

text \<open>
  The store is outside the service and may fail at any call. A request runs against a
  plan of faults: for each call, the text of the error the store raises there, if any.
\<close>

record faults =
  getconn_error :: "string option"
  cursor_error :: "string option"
  execute_error :: "string option"
  fetch_error :: "string option"
  commit_error :: "string option"
  rollback_error :: "string option"

definition no_faults :: faults where
  "no_faults = \<lparr>getconn_error = None, cursor_error = None, execute_error = None,
                 fetch_error = None, commit_error = None, rollback_error = None\<rparr>"

text \<open>A computation on the state that returns a value or raises.\<close>

type_synonym 'a io = "state \<Rightarrow> (exn + 'a) \<times> state"

definition return_value :: "'a \<Rightarrow> 'a io" where
  "return_value x s = (Inr x, s)"

definition raise_exn :: "exn \<Rightarrow> 'a io" where
  "raise_exn e s = (Inl e, s)"

text \<open>Sequencing of statements: an exception skips what follows.\<close>

definition then_do :: "'a io \<Rightarrow> ('a \<Rightarrow> 'b io) \<Rightarrow> 'b io" where
  "then_do m k s = (case m s of (Inl e, s') \<Rightarrow> (Inl e, s') | (Inr x, s') \<Rightarrow> k x s')"

definition log_event :: "event \<Rightarrow> state \<Rightarrow> state" where
  "log_event ev s = s\<lparr>trace := trace s @ [ev]\<rparr>"

definition current_table :: "state \<Rightarrow> task_row list" where
  "current_table s = (case pending s of None \<Rightarrow> tasks s | Some t \<Rightarrow> t)"

definition maxconn :: nat where
  "maxconn = 20"

text \<open>
  \<open>get_db_connection\<close> of \<open>app/main.py\<close>, that is \<open>pool.getconn()\<close>: it raises when all
  \<open>maxconn\<close> connections are out and when the store cannot be reached. A connection of
  the pool is idle when it is handed out.
\<close>

definition get_db_connection :: "faults \<Rightarrow> unit io" where
  "get_db_connection f s =
     (if maxconn \<le> in_use s then (Inl PoolError, s)
      else (case getconn_error f of
              Some m \<Rightarrow> (Inl (StoreError m), s)
            | None \<Rightarrow>
                (Inr (), log_event Acquire (s\<lparr>in_use := Suc (in_use s), pending := None\<rparr>))))"

text \<open>
  \<open>release_db_connection\<close>, that is \<open>pool.putconn(conn)\<close>: the connection goes back to
  the pool, and what its transaction had not committed is gone.
\<close>

definition release_db_connection :: "state \<Rightarrow> state" where
  "release_db_connection s = log_event Release (s\<lparr>in_use := in_use s - 1, pending := None\<rparr>)"

text \<open>
  \<open>get_db_connection\<close> of \<open>backend/app.py\<close>, that is \<open>psycopg2.connect\<close>: a new
  connection for each request and no bound; \<open>conn_close\<close> is its \<open>conn.close()\<close>.
\<close>

definition backend_get_db_connection :: "faults \<Rightarrow> unit io" where
  "backend_get_db_connection f s =
     (case getconn_error f of
        Some m \<Rightarrow> (Inl (StoreError m), s)
      | None \<Rightarrow> (Inr (), log_event Acquire (s\<lparr>in_use := Suc (in_use s), pending := None\<rparr>)))"

definition conn_close :: "unit io" where
  "conn_close s = (Inr (), log_event Release (s\<lparr>in_use := in_use s - 1, pending := None\<rparr>))"

definition conn_cursor :: "faults \<Rightarrow> unit io" where
  "conn_cursor f s =
     (case cursor_error f of Some m \<Rightarrow> (Inl (StoreError m), s) | None \<Rightarrow> (Inr (), s))"

definition conn_commit :: "faults \<Rightarrow> unit io" where
  "conn_commit f s =
     (case commit_error f of
        Some m \<Rightarrow> (Inl (StoreError m), log_event Commit s)
      | None \<Rightarrow> (Inr (), log_event Commit (s\<lparr>tasks := current_table s, pending := None\<rparr>)))"

definition conn_rollback :: "faults \<Rightarrow> unit io" where
  "conn_rollback f s =
     (case rollback_error f of
        Some m \<Rightarrow> (Inl (StoreError m), log_event Rollback s)
      | None \<Rightarrow> (Inr (), log_event Rollback (s\<lparr>pending := None\<rparr>)))"

text \<open>\<open>data[k]\<close>, which raises \<open>KeyError\<close>, and \<open>data.get(k, d)\<close>.\<close>

definition subscript :: "payload \<Rightarrow> string \<Rightarrow> json io" where
  "subscript data k =
     (case map_of data k of None \<Rightarrow> raise_exn (KeyError k) | Some v \<Rightarrow> return_value v)"

definition get_default :: "payload \<Rightarrow> string \<Rightarrow> json \<Rightarrow> json" where
  "get_default data k d = (case map_of data k of None \<Rightarrow> d | Some v \<Rightarrow> v)"

text \<open>
  Modelled from the spec: how the store takes the parameters of a statement, which the
  schema decides. A parameter fits its column when it is of the column's type (a date
  column takes the text of a date, read as \<open>strptime\<close> reads it; a nullable column takes
  null); the store refuses a statement with a parameter that does not fit.
\<close>

definition as_text :: "json \<Rightarrow> string option" where
  "as_text v = (case v of JStr s \<Rightarrow> Some s | _ \<Rightarrow> None)"

definition as_integer :: "json \<Rightarrow> int option" where
  "as_integer v = (case v of JInt n \<Rightarrow> Some n | _ \<Rightarrow> None)"

definition as_nullable_text :: "json \<Rightarrow> string option option" where
  "as_nullable_text v = (case v of JNull \<Rightarrow> Some None | JStr s \<Rightarrow> Some (Some s) | _ \<Rightarrow> None)"

definition as_nullable_date :: "json \<Rightarrow> date option option" where
  "as_nullable_date v =
     (case v of
        JNull \<Rightarrow> Some None
      | JStr s \<Rightarrow> (case strptime s of None \<Rightarrow> None | Some dt \<Rightarrow> Some (Some (date.truncate dt)))
      | _ \<Rightarrow> None)"

definition bad_parameter :: exn where
  "bad_parameter = StoreError ''invalid input value for column''"

text \<open>
  \<open>cursor.execute\<close> of the \<open>INSERT ... RETURNING id\<close> with the five parameters in the
  order of the statement; the result is the row the cursor holds, the new \<open>id\<close>.
\<close>

definition execute_insert :: "json \<times> json \<times> json \<times> json \<times> json \<Rightarrow> faults \<Rightarrow> int io" where
  "execute_insert params f s =
     (case params of (name, progress, assigned_to, deadline, priority) \<Rightarrow>
        (case execute_error f of
           Some m \<Rightarrow> (Inl (StoreError m), log_event Execute s)
         | None \<Rightarrow>
             (case (as_text name, as_integer progress, as_nullable_text assigned_to,
                    as_nullable_date deadline, as_text priority) of
                (Some n, Some p, Some a, Some d, Some pr) \<Rightarrow>
                  (Inr (next_id s),
                   log_event Execute
                     (s\<lparr>pending := Some (current_table s @
                                  [\<lparr>row_id = next_id s, row_name = n, row_progress = p,
                                    row_assigned_to = a, row_deadline = d, row_priority = pr\<rparr>]),
                        next_id := next_id s + 1\<rparr>))
              | _ \<Rightarrow> (Inl bad_parameter, log_event Execute s))))"

text \<open>\<open>UPDATE tasks SET progress = %s WHERE id = %s\<close>; the result is \<open>cursor.rowcount\<close>.\<close>

definition execute_update :: "json \<Rightarrow> int \<Rightarrow> faults \<Rightarrow> nat io" where
  "execute_update progress task_id f s =
     (case execute_error f of
        Some m \<Rightarrow> (Inl (StoreError m), log_event Execute s)
      | None \<Rightarrow>
          (case as_integer progress of
             None \<Rightarrow> (Inl bad_parameter, log_event Execute s)
           | Some p \<Rightarrow>
               (Inr (length (filter (\<lambda>r. row_id r = task_id) (current_table s))),
                log_event Execute
                  (s\<lparr>pending := Some (map (\<lambda>r. if row_id r = task_id
                                               then r\<lparr>row_progress := p\<rparr> else r)
                                        (current_table s))\<rparr>))))"

text \<open>\<open>DELETE FROM tasks WHERE id = %s\<close>; the result is \<open>cursor.rowcount\<close>.\<close>

definition execute_delete :: "int \<Rightarrow> faults \<Rightarrow> nat io" where
  "execute_delete task_id f s =
     (case execute_error f of
        Some m \<Rightarrow> (Inl (StoreError m), log_event Execute s)
      | None \<Rightarrow>
          (Inr (length (filter (\<lambda>r. row_id r = task_id) (current_table s))),
           log_event Execute
             (s\<lparr>pending := Some (filter (\<lambda>r. row_id r \<noteq> task_id) (current_table s))\<rparr>)))"

text \<open>\<open>SELECT ... FROM tasks ORDER BY id\<close>; the result is the rows the cursor holds.\<close>

definition execute_select :: "faults \<Rightarrow> task_row list io" where
  "execute_select f s =
     (case execute_error f of
        Some m \<Rightarrow> (Inl (StoreError m), log_event Execute s)
      | None \<Rightarrow> (Inr (sort_key row_id (current_table s)), log_event Execute s))"

text \<open>\<open>cursor.fetchone()\<close> and \<open>cursor.fetchall()\<close> on what the cursor holds.\<close>

definition fetch :: "'a \<Rightarrow> faults \<Rightarrow> 'a io" where
  "fetch held f s =
     (case fetch_error f of
        Some m \<Rightarrow> (Inl (StoreError m), log_event Fetch s)
      | None \<Rightarrow> (Inr held, log_event Fetch s))"

section \<open>The handlers of \<open>app/main.py\<close>\<close>

definition digit_char :: "nat \<Rightarrow> char" where
  "digit_char n = char_of (48 + n)"

text \<open>
  The directive \<open>%Y\<close> of \<open>strftime\<close>, as the C library of Linux formats it: the year in
  decimal with no padding, so three digits for the year 999. A date of Python has a
  year from 1 to 9999.
\<close>

definition year_text :: "nat \<Rightarrow> string" where
  "year_text y =
     (if y < 10 then [digit_char y]
      else if y < 100 then [digit_char (y div 10), digit_char (y mod 10)]
      else if y < 1000
        then [digit_char (y div 100), digit_char (y div 10 mod 10), digit_char (y mod 10)]
      else [digit_char (y div 1000 mod 10), digit_char (y div 100 mod 10),
            digit_char (y div 10 mod 10), digit_char (y mod 10)])"

text \<open>\<open>strftime('%Y-%m-%d')\<close> of a date: \<open>%m\<close> and \<open>%d\<close> have two digits.\<close>

definition strftime :: "date \<Rightarrow> string" where
  "strftime d =
     year_text (year d) @
     [CHR ''-'', digit_char (month d div 10 mod 10), digit_char (month d mod 10),
      CHR ''-'', digit_char (day d div 10 mod 10), digit_char (day d mod 10)]"

text \<open>
  One step of the loop of \<open>get_tasks\<close> and the serialisation of the row: a deadline
  becomes its text, a missing one stays null.
\<close>

definition jsonify_task :: "task_row \<Rightarrow> task_json" where
  "jsonify_task r =
     \<lparr>j_id = row_id r, j_name = row_name r, j_progress = row_progress r,
      j_assigned_to = row_assigned_to r,
      j_deadline = (case row_deadline r of None \<Rightarrow> None | Some d \<Rightarrow> Some (strftime d)),
      j_priority = row_priority r\<rparr>"

definition get_tasks_body :: "faults \<Rightarrow> response io" where
  "get_tasks_body f =
     then_do (conn_cursor f) (\<lambda>_.
     then_do (execute_select f) (\<lambda>held.
     then_do (fetch held f) (\<lambda>tasks.
     return_value (TasksBody (map jsonify_task tasks), 200))))"

text \<open>
  \<open>get_tasks\<close>: any exception gives the 500 response; \<open>finally\<close> releases the connection
  when there is one.
\<close>

definition get_tasks :: "faults \<Rightarrow> response io" where
  "get_tasks f s =
     (case get_db_connection f s of
        (Inl e, s1) \<Rightarrow> (Inr (ErrorBody ''Failed to retrieve tasks'', 500), s1)
      | (Inr _, s1) \<Rightarrow>
          (case get_tasks_body f s1 of
             (Inr resp, s2) \<Rightarrow> (Inr resp, release_db_connection s2)
           | (Inl e, s2) \<Rightarrow>
               (Inr (ErrorBody ''Failed to retrieve tasks'', 500), release_db_connection s2)))"

text \<open>
  The block that \<open>add_task\<close>, \<open>update_task\<close> and \<open>delete_task\<close> share:
  \<^verbatim>\<open>
    conn = None
    try:
        conn = get_db_connection()
        <body>
    except Exception as e:
        conn.rollback()
        return jsonify({"error": <failure>}), 500
    finally:
        if conn:
            release_db_connection(conn)
  \<close>
  When \<open>get_db_connection\<close> raises, \<open>conn\<close> is still \<open>None\<close> in the \<open>except\<close> clause and
  \<open>conn.rollback()\<close> raises \<open>AttributeError\<close>, which leaves the handler. When
  \<open>conn.rollback()\<close> raises on a connection, \<open>finally\<close> still runs and the exception
  leaves the handler.
\<close>

definition try_with_connection :: "string \<Rightarrow> response io \<Rightarrow> faults \<Rightarrow> response io" where
  "try_with_connection failure body f s =
     (case get_db_connection f s of
        (Inl e, s1) \<Rightarrow> (Inl AttributeError, s1)
      | (Inr _, s1) \<Rightarrow>
          (case body s1 of
             (Inr resp, s2) \<Rightarrow> (Inr resp, release_db_connection s2)
           | (Inl e, s2) \<Rightarrow>
               (case conn_rollback f s2 of
                  (Inl e', s3) \<Rightarrow> (Inl e', release_db_connection s3)
                | (Inr _, s3) \<Rightarrow> (Inr (ErrorBody failure, 500), release_db_connection s3))))"

definition add_task_body :: "payload \<Rightarrow> faults \<Rightarrow> response io" where
  "add_task_body data f =
     then_do (conn_cursor f) (\<lambda>_.
     then_do (subscript data ''name'') (\<lambda>name.
     then_do (subscript data ''priority'') (\<lambda>priority.
     then_do (execute_insert (name, get_default data ''progress'' (JInt 0),
                              get_default data ''assigned_to'' JNull,
                              get_default data ''deadline'' JNull, priority) f) (\<lambda>held.
     then_do (fetch held f) (\<lambda>new_id.
     then_do (conn_commit f) (\<lambda>_.
     return_value (CreatedBody ''Task added successfully'' new_id, 201)))))))"

definition add_task :: "payload \<Rightarrow> datetime \<Rightarrow> faults \<Rightarrow> response io" where
  "add_task data now f s =
     (case validate_task_data data now of
        Inl e \<Rightarrow> (Inl e, s)
      | Inr (Some validation) \<Rightarrow> (Inr validation, s)
      | Inr None \<Rightarrow> try_with_connection ''Failed to create task'' (add_task_body data f) f s)"

text \<open>
  \<open>'progress' in data and not (0 <= data['progress'] <= 100)\<close>: a Python \<open>bool\<close> is the
  integer 0 or 1, and the comparison raises \<open>TypeError\<close> on the other types.
\<close>

definition progress_out_of_range :: "payload \<Rightarrow> exn + bool" where
  "progress_out_of_range data =
     (case map_of data ''progress'' of
        None \<Rightarrow> Inr False
      | Some (JInt n) \<Rightarrow> Inr (\<not> (0 \<le> n \<and> n \<le> 100))
      | Some (JBool b) \<Rightarrow> Inr False
      | Some _ \<Rightarrow> Inl TypeError)"

definition update_task_body :: "int \<Rightarrow> payload \<Rightarrow> faults \<Rightarrow> response io" where
  "update_task_body task_id data f =
     then_do (conn_cursor f) (\<lambda>_.
     then_do (subscript data ''progress'') (\<lambda>progress.
     then_do (execute_update progress task_id f) (\<lambda>rowcount.
     if rowcount = 0 then return_value (ErrorBody ''Task not found'', 404)
     else then_do (conn_commit f) (\<lambda>_.
          return_value (MessageBody ''Task updated successfully'', 200)))))"

definition update_task :: "int \<Rightarrow> payload \<Rightarrow> faults \<Rightarrow> response io" where
  "update_task task_id data f s =
     (case progress_out_of_range data of
        Inl e \<Rightarrow> (Inl e, s)
      | Inr True \<Rightarrow> (Inr (ErrorBody ''Progress must be between 0-100'', 400), s)
      | Inr False \<Rightarrow>
          try_with_connection ''Failed to update task'' (update_task_body task_id data f) f s)"

definition delete_task_body :: "int \<Rightarrow> faults \<Rightarrow> response io" where
  "delete_task_body task_id f =
     then_do (conn_cursor f) (\<lambda>_.
     then_do (execute_delete task_id f) (\<lambda>rowcount.
     if rowcount = 0 then return_value (ErrorBody ''Task not found'', 404)
     else then_do (conn_commit f) (\<lambda>_.
          return_value (MessageBody ''Task deleted successfully'', 200))))"

definition delete_task :: "int \<Rightarrow> faults \<Rightarrow> response io" where
  "delete_task task_id f s =
     try_with_connection ''Failed to delete task'' (delete_task_body task_id f) f s"

text \<open>
  The routes, and what the client receives: an exception that leaves a handler is
  answered by \<open>internal_error\<close>, the handler registered for status 500.
\<close>

datatype request =
    ListTasks
  | CreateTask payload
  | UpdateProgress int payload
  | DeleteTask int

definition internal_error :: response where
  "internal_error = (ErrorBody ''Internal server error'', 500)"

definition run_handler :: "request \<Rightarrow> datetime \<Rightarrow> faults \<Rightarrow> response io" where
  "run_handler req now f =
     (case req of
        ListTasks \<Rightarrow> get_tasks f
      | CreateTask data \<Rightarrow> add_task data now f
      | UpdateProgress task_id data \<Rightarrow> update_task task_id data f
      | DeleteTask task_id \<Rightarrow> delete_task task_id f)"

definition serve :: "request \<Rightarrow> datetime \<Rightarrow> faults \<Rightarrow> state \<Rightarrow> response \<times> state" where
  "serve req now f s =
     (case run_handler req now f s of
        (Inl e, s') \<Rightarrow> (internal_error, s')
      | (Inr resp, s') \<Rightarrow> (resp, s'))"

section \<open>\<open>add_task\<close> of \<open>backend/app.py\<close>\<close>

text \<open>
  The variant without a pool. Its \<open>except\<close> clause neither rolls back nor closes the
  connection, and formats the exception into the response.
\<close>

definition backend_add_task_body :: "payload \<Rightarrow> faults \<Rightarrow> response io" where
  "backend_add_task_body data f =
     then_do (backend_get_db_connection f) (\<lambda>_.
     then_do (conn_cursor f) (\<lambda>_.
     then_do (subscript data ''name'') (\<lambda>name.
     then_do (subscript data ''assigned_to'') (\<lambda>assigned_to.
     then_do (if truthy (get_default data ''deadline'' JNull)
              then subscript data ''deadline'' else return_value JNull) (\<lambda>deadline.
     then_do (subscript data ''priority'') (\<lambda>priority.
     then_do (execute_insert (name, get_default data ''progress'' (JInt 0),
                              assigned_to, deadline, priority) f) (\<lambda>held.
     then_do (fetch held f) (\<lambda>new_id.
     then_do (conn_commit f) (\<lambda>_.
     then_do conn_close (\<lambda>_.
     return_value (CreatedBody ''Task added successfully'' new_id, 201)))))))))))"

definition backend_add_task :: "payload \<Rightarrow> datetime \<Rightarrow> faults \<Rightarrow> response io" where
  "backend_add_task data now f s =
     (case backend_validate_task_data data now of
        Inl e \<Rightarrow> (Inl e, s)
      | Inr (Some validation) \<Rightarrow> (Inr validation, s)
      | Inr None \<Rightarrow>
          (case backend_add_task_body data f s of
             (Inr resp, s1) \<Rightarrow> (Inr resp, s1)
           | (Inl e, s1) \<Rightarrow> (Inr (ErrorBody (''Database error: '' @ exn_str e), 500), s1)))"

section \<open>The four blocks of \<open>validate_task_data\<close>, one by one\<close>

text \<open>
  The function of the source cut into its four \<open>if\<close> blocks, in the order of the source:
  name, priority, deadline, denylist. These are translations of the code, not of the
  specification (its wording of the checks follows in the next section): what a block
  does is to pass, to reject with a response, or to raise. \<open>name_check\<close> raises where
  \<open>re.match\<close> does (a name that is not a string) and \<open>deadline_check\<close> where \<open>strptime\<close>
  does (a deadline that is true in Python's sense and not a string).
\<close>

datatype check_result = Pass | Reject response | Raise exn

definition name_check :: "payload \<Rightarrow> check_result" where
  "name_check data =
     (case map_of data ''name'' of
        None \<Rightarrow> Reject (ErrorBody ''Invalid task name (3-100 alphanumeric characters)'', 400)
      | Some (JStr name) \<Rightarrow>
          if name_match name then Pass
          else Reject (ErrorBody ''Invalid task name (3-100 alphanumeric characters)'', 400)
      | Some _ \<Rightarrow> Raise TypeError)"

definition priority_check :: "payload \<Rightarrow> check_result" where
  "priority_check data =
     (if map_of data ''priority'' = Some (JStr ''Low'')
         \<or> map_of data ''priority'' = Some (JStr ''Medium'')
         \<or> map_of data ''priority'' = Some (JStr ''High'')
      then Pass else Reject (ErrorBody ''Invalid priority value'', 400))"

definition deadline_check :: "payload \<Rightarrow> datetime \<Rightarrow> check_result" where
  "deadline_check data now =
     (case map_of data ''deadline'' of
        None \<Rightarrow> Pass
      | Some (JStr s) \<Rightarrow>
          if s = [] then Pass
          else (case strptime s of
                  None \<Rightarrow> Reject (ErrorBody ''Invalid deadline format. Use YYYY-MM-DD.'', 400)
                | Some deadline_dt \<Rightarrow>
                    if datetime_less deadline_dt now
                    then Reject (ErrorBody ''Deadline cannot be in the past'', 400)
                    else Pass)
      | Some v \<Rightarrow> if truthy v then Raise TypeError else Pass)"

definition denylist_check :: "payload \<Rightarrow> check_result" where
  "denylist_check data =
     (if list_ex (\<lambda>kv. case snd kv of JStr s \<Rightarrow> sql_injection_search s | _ \<Rightarrow> False) data
      then Reject (ErrorBody ''Invalid input detected'', 400) else Pass)"

text \<open>Checks applied in order: the first one that does not pass decides.\<close>

fun first_failure :: "check_result list \<Rightarrow> exn + response option" where
  "first_failure [] = Inr None"
| "first_failure (Pass # cs) = first_failure cs"
| "first_failure (Reject r # cs) = Inr (Some r)"
| "first_failure (Raise e # cs) = Inl e"

section \<open>The validation in the words of the specification\<close>

text \<open>
  Section 4.2 of the specification, to be compared with \<open>validate_task_data\<close> of the
  source: given a payload and the current date, the result is ``accept'' (\<open>None\<close>) or a
  rejection with a reason, always with status 400. The checks are applied in order and
  the first failure wins.
\<close>

datatype spec_reason =
    BadName
  | BadPriority
  | BadDeadlineFormat
  | DeadlineInPast
  | DenylistedContent

text \<open>
  Check 1: the name is present and matches the pattern, 3 to 100 characters from word
  characters, whitespace, \<open>-\<close>, \<open>(\<close> and \<open>)\<close>.
\<close>

definition spec_name_ok :: "payload \<Rightarrow> bool" where
  "spec_name_ok data =
     (case map_of data ''name'' of
        Some (JStr s) \<Rightarrow> 3 \<le> length s \<and> length s \<le> 100 \<and> list_all name_char s
      | _ \<Rightarrow> False)"

text \<open>Check 2: the priority is exactly one of Low, Medium, High.\<close>

definition spec_priority_ok :: "payload \<Rightarrow> bool" where
  "spec_priority_ok data =
     (map_of data ''priority'' = Some (JStr ''Low'')
      \<or> map_of data ''priority'' = Some (JStr ''Medium'')
      \<or> map_of data ''priority'' = Some (JStr ''High''))"

text \<open>The text \<open>YYYY-MM-DD\<close>: four digits, a hyphen, two digits, a hyphen, two digits.\<close>

definition iso_date_text :: "string \<Rightarrow> bool" where
  "iso_date_text t =
     (length t = 10 \<and> list_all is_digit (take 4 t) \<and> take 1 (drop 4 t) = [CHR ''-'']
      \<and> list_all is_digit (take 2 (drop 5 t)) \<and> take 1 (drop 7 t) = [CHR ''-'']
      \<and> list_all is_digit (drop 8 t))"

text \<open>A value parses as \<open>YYYY-MM-DD\<close> when it is such a text and names a date that exists.\<close>

definition spec_parse_deadline :: "json \<Rightarrow> date option" where
  "spec_parse_deadline v =
     (case v of
        JStr s \<Rightarrow>
          if iso_date_text s
          then (case strptime s of None \<Rightarrow> None | Some dt \<Rightarrow> Some (date.truncate dt))
          else None
      | _ \<Rightarrow> None)"

definition date_less :: "date \<Rightarrow> date \<Rightarrow> bool" where
  "date_less a b =
     (year a < year b \<or> (year a = year b \<and>
     (month a < month b \<or> (month a = month b \<and> day a < day b))))"

text \<open>
  Check 3: if the deadline is present and non-empty, it parses as \<open>YYYY-MM-DD\<close>, else
  ``invalid format''; a parsed date strictly before the current date is ``in the past''.
\<close>

definition spec_deadline_reason :: "payload \<Rightarrow> date \<Rightarrow> spec_reason option" where
  "spec_deadline_reason data today =
     (case map_of data ''deadline'' of
        None \<Rightarrow> None
      | Some v \<Rightarrow>
          if \<not> truthy v then None
          else (case spec_parse_deadline v of
                  None \<Rightarrow> Some BadDeadlineFormat
                | Some d \<Rightarrow> if date_less d today then Some DeadlineInPast else None))"

text \<open>Check 4: some string-typed field value contains a substring of the denylist.\<close>

definition spec_denylisted :: "payload \<Rightarrow> bool" where
  "spec_denylisted data =
     list_ex (\<lambda>kv. case snd kv of JStr s \<Rightarrow> sql_injection_search s | _ \<Rightarrow> False) data"

definition spec_validate :: "payload \<Rightarrow> date \<Rightarrow> spec_reason option" where
  "spec_validate data today =
     (if \<not> spec_name_ok data then Some BadName
      else if \<not> spec_priority_ok data then Some BadPriority
      else (case spec_deadline_reason data today of
              Some r \<Rightarrow> Some r
            | None \<Rightarrow> if spec_denylisted data then Some DenylistedContent else None))"

text \<open>The response with which the source words each reason.\<close>

fun rejection_of :: "spec_reason \<Rightarrow> response" where
  "rejection_of BadName = (ErrorBody ''Invalid task name (3-100 alphanumeric characters)'', 400)"
| "rejection_of BadPriority = (ErrorBody ''Invalid priority value'', 400)"
| "rejection_of BadDeadlineFormat = (ErrorBody ''Invalid deadline format. Use YYYY-MM-DD.'', 400)"
| "rejection_of DeadlineInPast = (ErrorBody ''Deadline cannot be in the past'', 400)"
| "rejection_of DenylistedContent = (ErrorBody ''Invalid input detected'', 400)"

section \<open>Dates and times of day\<close>

text \<open>The calendar dates of two points in time compared, and the first instant of a day.\<close>

definition same_date :: "datetime \<Rightarrow> datetime \<Rightarrow> bool" where
  "same_date a b = (year a = year b \<and> month a = month b \<and> day a = day b)"

definition date_before :: "datetime \<Rightarrow> datetime \<Rightarrow> bool" where
  "date_before a b =
     (year a < year b \<or> (year a = year b \<and>
     (month a < month b \<or> (month a = month b \<and> day a < day b))))"

definition at_midnight :: "datetime \<Rightarrow> bool" where
  "at_midnight t = (hour t = 0 \<and> minute t = 0 \<and> second t = 0 \<and> microsecond t = 0)"

section \<open>Dates that exist\<close>

text \<open>The dates of Python's \<open>date\<close> type: year 1 to 9999, and a day the month has.\<close>

definition valid_date :: "date \<Rightarrow> bool" where
  "valid_date d =
     (1 \<le> year d \<and> year d \<le> 9999 \<and> 1 \<le> month d \<and> month d \<le> 12
      \<and> 1 \<le> day d \<and> day d \<le> days_in_month (year d) (month d))"

section \<open>Example inputs\<close>

definition noon_2026_11_03 :: datetime where
  "noon_2026_11_03 = \<lparr>year = 2026, month = 11, day = 3,
                       hour = 12, minute = 0, second = 0, microsecond = 0\<rparr>"

definition empty_store :: state where
  "empty_store = \<lparr>tasks = [], next_id = 1, pending = None, in_use = 0, trace = []\<rparr>"

definition one_task_store :: state where
  "one_task_store =
     \<lparr>tasks = [\<lparr>row_id = 1, row_name = ''Pour slab'', row_progress = 40,
                 row_assigned_to = None, row_deadline = None, row_priority = ''High''\<rparr>],
      next_id = 2, pending = None, in_use = 0, trace = []\<rparr>"

definition midnight_2026_11_03 :: datetime where
  "midnight_2026_11_03 = \<lparr>year = 2026, month = 11, day = 3,
                           hour = 0, minute = 0, second = 0, microsecond = 0\<rparr>"


section \<open>Predicates on the events of a request\<close>

text \<open>
  From \<open>s\<close> to \<open>s'\<close> the pool was left alone: the number of connections handed out is
  the same and no connection was acquired or released.
\<close>

definition quiet :: "state \<Rightarrow> state \<Rightarrow> bool" where
  "quiet s s' =
     (in_use s' = in_use s \<and>
      (\<exists>mid. trace s' = trace s @ mid \<and> Acquire \<notin> set mid \<and> Release \<notin> set mid))"

text \<open>
  From \<open>s\<close> to \<open>s'\<close> either nothing was logged, or one connection was acquired first
  and released last, and no other connection was acquired or released in between.
\<close>

definition released_once :: "state \<Rightarrow> state \<Rightarrow> bool" where
  "released_once s s' =
     (in_use s' = in_use s \<and>
      (\<exists>tr. trace s' = trace s @ tr \<and>
            (tr = [] \<or> (\<exists>mid. tr = Acquire # mid @ [Release]
                            \<and> Acquire \<notin> set mid \<and> Release \<notin> set mid))))"

section \<open>The validation applies its checks in order\<close>

lemma scan_denylist:
  "(if list_ex (\<lambda>v. case v of JStr s \<Rightarrow> sql_injection_search s | _ \<Rightarrow> False) (map snd data)
    then reject ''Invalid input detected'' else Inr None) = first_failure [denylist_check data]"
  by (simp add: denylist_check_def reject_def list_ex_iff)

lemma priority_membership:
  "(map_of data ''priority'' \<notin> Some ` JStr ` {''Low'', ''Medium'', ''High''})
     = (priority_check data \<noteq> Pass)"
  by (auto simp: priority_check_def)

lemma name_check_cases:
  "name_check data = Pass \<or> name_check data = Raise TypeError
   \<or> name_check data = Reject (ErrorBody ''Invalid task name (3-100 alphanumeric characters)'', 400)"
  by (simp add: name_check_def split: option.split json.split)

lemma priority_check_cases:
  "priority_check data = Pass \<or> priority_check data = Reject (ErrorBody ''Invalid priority value'', 400)"
  by (simp add: priority_check_def)

lemma deadline_check_cases:
  "deadline_check data now = Pass \<or> deadline_check data now = Raise TypeError
   \<or> deadline_check data now = Reject (ErrorBody ''Invalid deadline format. Use YYYY-MM-DD.'', 400)
   \<or> deadline_check data now = Reject (ErrorBody ''Deadline cannot be in the past'', 400)"
  by (simp add: deadline_check_def split: option.split json.split)

lemma denylist_check_cases:
  "denylist_check data = Pass \<or> denylist_check data = Reject (ErrorBody ''Invalid input detected'', 400)"
  by (simp add: denylist_check_def)

text \<open>The deadline block of the source, with what follows it as \<open>k\<close>.\<close>

lemma deadline_block:
  "(case map_of data ''deadline'' of
      None \<Rightarrow> k
    | Some dl \<Rightarrow>
        if truthy dl then
          (case dl of
             JStr s \<Rightarrow>
               (case strptime s of
                  None \<Rightarrow> reject ''Invalid deadline format. Use YYYY-MM-DD.''
                | Some deadline_dt \<Rightarrow>
                    if datetime_less deadline_dt now
                      then reject ''Deadline cannot be in the past''
                    else k)
           | _ \<Rightarrow> Inl TypeError)
        else k)
   = (case deadline_check data now of Pass \<Rightarrow> k | Reject r \<Rightarrow> Inr (Some r) | Raise e \<Rightarrow> Inl e)"
proof (cases "map_of data ''deadline''")
  case None
  then show ?thesis by (simp add: deadline_check_def)
next
  case (Some dl)
  then show ?thesis
    by (cases dl) (simp_all add: deadline_check_def reject_def split: option.split)
qed

lemma first_failure_Cons:
  "first_failure (c # cs) =
     (case c of Pass \<Rightarrow> first_failure cs | Reject r \<Rightarrow> Inr (Some r) | Raise e \<Rightarrow> Inl e)"
  by (cases c) simp_all

lemma validate_first_failure:
  "validate_task_data data now =
     first_failure [name_check data, priority_check data, deadline_check data now,
                    denylist_check data]"
proof -
  have rest: "(if priority_check data \<noteq> Pass then reject ''Invalid priority value''
               else (case deadline_check data now of
                       Pass \<Rightarrow> first_failure [denylist_check data]
                     | Reject r \<Rightarrow> Inr (Some r) | Raise e \<Rightarrow> Inl e))
              = first_failure [priority_check data, deadline_check data now, denylist_check data]"
    using priority_check_cases [of data]
    by (auto simp: reject_def first_failure_Cons [of "deadline_check data now"])
  show ?thesis
  proof (cases "map_of data ''name''")
    case None
    then show ?thesis
      by (simp add: validate_task_data_def name_check_def name_match_def reject_def)
  next
    case (Some v)
    then show ?thesis
      unfolding validate_task_data_def Let_def scan_denylist priority_membership deadline_block rest
      by (cases v) (simp_all add: name_check_def reject_def)
  qed
qed

lemma validate_rejection_status:
  assumes "validate_task_data data now = Inr (Some r)"
  shows "snd r = 400"
  using assms name_check_cases [of data] priority_check_cases [of data]
    deadline_check_cases [of data now] denylist_check_cases [of data]
  unfolding validate_first_failure
  by (elim disjE) auto

section \<open>A rejected create request never reaches the store\<close>

text \<open>
  Claim C7. When the validation rejects the payload of a create request, \<open>add_task\<close>
  returns that rejection, with status 400, and the state is the one it started from:
  no connection was acquired (the trace has no new event) and the table is untouched.
\<close>

theorem create_rejected_before_connection:
  assumes "validate_task_data data now = Inr (Some r)"
  shows "add_task data now f s = (Inr r, s) \<and> snd r = 400"
  using assms validate_rejection_status [of data now r] by (simp add: add_task_def)

theorem create_rejected_before_connection_witness:
  "validate_task_data [(''name'', JStr ''x''), (''priority'', JStr ''Low'')] noon_2026_11_03
     = Inr (Some (ErrorBody ''Invalid task name (3-100 alphanumeric characters)'', 400))
   \<and> add_task [(''name'', JStr ''x''), (''priority'', JStr ''Low'')] noon_2026_11_03 no_faults
        one_task_store
     = (Inr (ErrorBody ''Invalid task name (3-100 alphanumeric characters)'', 400), one_task_store)"
proof -
  have v: "validate_task_data [(''name'', JStr ''x''), (''priority'', JStr ''Low'')] noon_2026_11_03
     = Inr (Some (ErrorBody ''Invalid task name (3-100 alphanumeric characters)'', 400))"
    by code_simp
  from create_rejected_before_connection [OF v, of no_faults one_task_store] v
  show ?thesis by simp
qed

section \<open>The denylist scan\<close>

lemma lower_Selection: "map lower_char ''Selection'' = ''selection''"
  by code_simp

lemma Selection_contains_select:
  assumes "sublist ''Selection'' n"
  shows "sublist ''select'' (map lower_char n)"
proof -
  have "sublist (map lower_char ''Selection'') (map lower_char n)"
    using assms by (rule map_mono_sublist)
  moreover have "sublist ''select'' ''selection''"
    by code_simp
  ultimately show ?thesis
    unfolding lower_Selection by (rule sublist_order.order_trans [rotated])
qed

lemma denylist_check_rejects:
  assumes "(k, JStr v) \<in> set data" and "alt \<in> set sql_injection_alternatives"
    and "sublist alt (map lower_char v)"
  shows "denylist_check data = Reject (ErrorBody ''Invalid input detected'', 400)"
proof -
  have "sql_injection_search v"
    using assms(2,3) by (auto simp: sql_injection_search_def list_ex_iff)
  with assms(1) show ?thesis
    by (force simp: denylist_check_def list_ex_iff)
qed

text \<open>
  Claim C4, as stated, fails: the scan searches for the keywords anywhere in a value,
  not for whole words. The name ``Selection of tiles'' passes the name, priority and
  deadline checks and is rejected by the scan, because it contains ``select''.
\<close>

theorem selection_name_rejected_by_scan:
  "name_check [(''name'', JStr ''Selection of tiles''), (''priority'', JStr ''Low'')] = Pass
   \<and> priority_check [(''name'', JStr ''Selection of tiles''), (''priority'', JStr ''Low'')] = Pass
   \<and> deadline_check [(''name'', JStr ''Selection of tiles''), (''priority'', JStr ''Low'')]
        noon_2026_11_03 = Pass
   \<and> validate_task_data [(''name'', JStr ''Selection of tiles''), (''priority'', JStr ''Low'')]
        noon_2026_11_03 = Inr (Some (ErrorBody ''Invalid input detected'', 400))"
  by code_simp

text \<open>
  Claim C4, amended. A payload with a text value in which \<open>;\<close>, \<open>--\<close> or one of the
  keywords occurs as a substring, in any case of the letters, is never accepted: the
  validation rejects it with status 400, unless a name or deadline that is not text
  makes it raise first; when the three earlier checks pass, the rejection is the one of
  the scan. In particular a name that contains ``Selection'' is rejected by the scan.
\<close>

theorem denylist_scan_matches_substrings:
  "((k, JStr v) \<in> set data \<and> alt \<in> set sql_injection_alternatives
      \<and> sublist alt (map lower_char v) \<longrightarrow>
      (validate_task_data data now = Inl TypeError
         \<or> (\<exists>msg. validate_task_data data now = Inr (Some (ErrorBody msg, 400))))
      \<and> (name_check data = Pass \<and> priority_check data = Pass \<and> deadline_check data now = Pass
           \<longrightarrow> validate_task_data data now = Inr (Some (ErrorBody ''Invalid input detected'', 400))))
   \<and> (map_of data ''name'' = Some (JStr n) \<and> sublist ''Selection'' n
        \<and> name_check data = Pass \<and> priority_check data = Pass \<and> deadline_check data now = Pass
      \<longrightarrow> validate_task_data data now = Inr (Some (ErrorBody ''Invalid input detected'', 400)))"
proof (intro conjI impI)
  assume a: "(k, JStr v) \<in> set data \<and> alt \<in> set sql_injection_alternatives
      \<and> sublist alt (map lower_char v)"
  then have d: "denylist_check data = Reject (ErrorBody ''Invalid input detected'', 400)"
    using denylist_check_rejects by blast
  show "validate_task_data data now = Inl TypeError
         \<or> (\<exists>msg. validate_task_data data now = Inr (Some (ErrorBody msg, 400)))"
    using name_check_cases [of data] priority_check_cases [of data]
      deadline_check_cases [of data now]
    unfolding validate_first_failure d
    by (elim disjE) simp_all
  assume "name_check data = Pass \<and> priority_check data = Pass \<and> deadline_check data now = Pass"
  then show "validate_task_data data now = Inr (Some (ErrorBody ''Invalid input detected'', 400))"
    by (simp add: validate_first_failure d)
next
  assume a: "map_of data ''name'' = Some (JStr n) \<and> sublist ''Selection'' n
        \<and> name_check data = Pass \<and> priority_check data = Pass \<and> deadline_check data now = Pass"
  then have "(''name'', JStr n) \<in> set data"
    by (blast dest: map_of_SomeD)
  moreover have "''select'' \<in> set sql_injection_alternatives"
    by (simp add: sql_injection_alternatives_def)
  moreover have "sublist ''select'' (map lower_char n)"
    using a Selection_contains_select by blast
  ultimately have "denylist_check data = Reject (ErrorBody ''Invalid input detected'', 400)"
    by (rule denylist_check_rejects)
  with a show "validate_task_data data now = Inr (Some (ErrorBody ''Invalid input detected'', 400))"
    by (simp add: validate_first_failure)
qed

theorem denylist_scan_matches_substrings_witness:
  "(''assigned_to'', JStr ''crew; night shift'')
      \<in> set [(''name'', JStr ''Selection of tiles''), (''priority'', JStr ''Low''),
              (''assigned_to'', JStr ''crew; night shift'')]
   \<and> '';'' \<in> set sql_injection_alternatives
   \<and> sublist '';'' (map lower_char ''crew; night shift'')
   \<and> map_of [(''name'', JStr ''Selection of tiles''), (''priority'', JStr ''Low''),
              (''assigned_to'', JStr ''crew; night shift'')] ''name''
       = Some (JStr ''Selection of tiles'')
   \<and> sublist ''Selection'' ''Selection of tiles''
   \<and> name_check [(''name'', JStr ''Selection of tiles''), (''priority'', JStr ''Low''),
              (''assigned_to'', JStr ''crew; night shift'')] = Pass
   \<and> priority_check [(''name'', JStr ''Selection of tiles''), (''priority'', JStr ''Low''),
              (''assigned_to'', JStr ''crew; night shift'')] = Pass
   \<and> deadline_check [(''name'', JStr ''Selection of tiles''), (''priority'', JStr ''Low''),
              (''assigned_to'', JStr ''crew; night shift'')] noon_2026_11_03 = Pass
   \<and> validate_task_data [(''name'', JStr ''Selection of tiles''), (''priority'', JStr ''Low''),
              (''assigned_to'', JStr ''crew; night shift'')] noon_2026_11_03
       = Inr (Some (ErrorBody ''Invalid input detected'', 400))"
proof -
  let ?d = "[(''name'', JStr ''Selection of tiles''), (''priority'', JStr ''Low''),
             (''assigned_to'', JStr ''crew; night shift'')]"
  have h1: "(''assigned_to'', JStr ''crew; night shift'') \<in> set ?d" by simp
  have h2: "'';'' \<in> set sql_injection_alternatives"
    by (simp add: sql_injection_alternatives_def)
  have h3: "sublist '';'' (map lower_char ''crew; night shift'')" by code_simp
  have h4: "map_of ?d ''name'' = Some (JStr ''Selection of tiles'')" by simp
  have h5: "sublist ''Selection'' ''Selection of tiles''" by code_simp
  have h6: "name_check ?d = Pass" by code_simp
  have h7: "priority_check ?d = Pass" by code_simp
  have h8: "deadline_check ?d noon_2026_11_03 = Pass" by code_simp
  from denylist_scan_matches_substrings
         [of "''assigned_to''" "''crew; night shift''" ?d "'';''" noon_2026_11_03
             "''Selection of tiles''"]
       h1 h2 h3 h4 h5 h6 h7 h8
  show ?thesis by blast
qed

section \<open>The deadline check\<close>

lemma strptime_midnight:
  assumes "strptime s = Some dt"
  shows "hour dt = 0 \<and> minute dt = 0 \<and> second dt = 0 \<and> microsecond dt = 0"
  using assms
  by (auto simp: strptime_def Let_def split: list.splits if_splits option.splits)

lemma datetime_less_midnight:
  assumes "hour dt = 0 \<and> minute dt = 0 \<and> second dt = 0 \<and> microsecond dt = 0"
  shows "datetime_less dt now = (date_before dt now \<or> (same_date dt now \<and> \<not> at_midnight now))"
  using assms by (auto simp: datetime_less_def date_before_def same_date_def at_midnight_def)

lemma deadline_check_on_text:
  assumes "map_of data ''deadline'' = Some (JStr s)" and "s \<noteq> []"
  shows "deadline_check data now =
     (case strptime s of
        None \<Rightarrow> Reject (ErrorBody ''Invalid deadline format. Use YYYY-MM-DD.'', 400)
      | Some dt \<Rightarrow>
          if date_before dt now \<or> (same_date dt now \<and> \<not> at_midnight now)
          then Reject (ErrorBody ''Deadline cannot be in the past'', 400) else Pass)"
  using assms
  by (simp add: deadline_check_def datetime_less_midnight [OF strptime_midnight]
        split: option.split)

text \<open>
  Claim C3 says that a deadline equal to the current date is accepted. The code compares
  the deadline at 00:00:00 with the current time, so at noon of 2026-11-03 the deadline
  2026-11-03 is rejected as being in the past, by both variants of the validation.
\<close>

theorem deadline_today_rejected:
  "validate_task_data [(''name'', JStr ''Write spec''), (''priority'', JStr ''High''),
                       (''deadline'', JStr ''2026-11-03'')] noon_2026_11_03
     = Inr (Some (ErrorBody ''Deadline cannot be in the past'', 400))
   \<and> backend_validate_task_data [(''name'', JStr ''Write spec''), (''priority'', JStr ''High''),
                       (''deadline'', JStr ''2026-11-03'')] noon_2026_11_03
     = Inr (Some (ErrorBody ''Deadline cannot be in the past'', 400))"
  by code_simp

section \<open>The validation against the specification\<close>

text \<open>
  Where the source and the specification agree: on a payload whose name, if given, is
  a string (and not of 101 characters, which the \<open>$\<close> of the pattern lets through when
  the last one is a newline), and whose deadline, if given and not empty, is a string
  that is a \<open>YYYY-MM-DD\<close> text or that \<open>strptime\<close> refuses, and is not the current date
  unless the clock is at midnight.
\<close>

lemma name_check_spec:
  assumes "\<And>v. map_of data ''name'' = Some v \<Longrightarrow> \<exists>s. v = JStr s \<and> length s \<noteq> 101"
  shows "name_check data = (if spec_name_ok data then Pass else Reject (rejection_of BadName))"
proof (cases "map_of data ''name''")
  case None
  then show ?thesis by (simp add: name_check_def spec_name_ok_def)
next
  case (Some v)
  with assms obtain s where "v = JStr s" and "length s \<noteq> 101" by blast
  with Some show ?thesis
    by (auto simp: name_check_def spec_name_ok_def name_match_def)
qed

lemma priority_check_spec:
  "priority_check data
     = (if spec_priority_ok data then Pass else Reject (rejection_of BadPriority))"
  by (simp add: priority_check_def spec_priority_ok_def)

lemma denylist_check_spec:
  "denylist_check data
     = (if spec_denylisted data then Reject (rejection_of DenylistedContent) else Pass)"
  by (simp add: denylist_check_def spec_denylisted_def)

lemma date_less_truncate:
  "date_less (date.truncate a) (date.truncate b) = date_before a b"
  by (simp add: date_less_def date_before_def date.defs)

lemma deadline_check_spec:
  assumes dl: "\<And>v. map_of data ''deadline'' = Some v \<Longrightarrow> truthy v \<Longrightarrow>
                 \<exists>s. v = JStr s \<and> (iso_date_text s \<or> strptime s = None)"
    and day: "\<And>s dt. map_of data ''deadline'' = Some (JStr s) \<Longrightarrow> strptime s = Some dt \<Longrightarrow>
                 same_date dt now \<Longrightarrow> at_midnight now"
  shows "deadline_check data now
           = (case spec_deadline_reason data (date.truncate now) of
                None \<Rightarrow> Pass | Some r \<Rightarrow> Reject (rejection_of r))"
proof (cases "map_of data ''deadline''")
  case None
  then show ?thesis by (simp add: deadline_check_def spec_deadline_reason_def)
next
  case (Some v)
  show ?thesis
  proof (cases "truthy v")
    case False
    with Some show ?thesis
      by (cases v) (simp_all add: deadline_check_def spec_deadline_reason_def)
  next
    case True
    with dl Some obtain s where v: "v = JStr s" and iso: "iso_date_text s \<or> strptime s = None"
      by blast
    from True v have ne: "s \<noteq> []" by simp
    have m: "map_of data ''deadline'' = Some (JStr s)" using Some v by simp
    show ?thesis
    proof (cases "strptime s")
      case None
      with m ne True v show ?thesis
        by (simp add: deadline_check_on_text spec_deadline_reason_def spec_parse_deadline_def)
    next
      case (Some dt)
      with iso have i: "iso_date_text s" by simp
      have "\<not> (same_date dt now \<and> \<not> at_midnight now)"
        using day [OF m Some] by blast
      with m ne True v Some i show ?thesis
        by (simp add: deadline_check_on_text spec_deadline_reason_def spec_parse_deadline_def
              date_less_truncate)
    qed
  qed
qed

lemma validate_agrees_with_specification:
  assumes "\<And>v. map_of data ''name'' = Some v \<Longrightarrow> \<exists>s. v = JStr s \<and> length s \<noteq> 101"
    and "\<And>v. map_of data ''deadline'' = Some v \<Longrightarrow> truthy v \<Longrightarrow>
            \<exists>s. v = JStr s \<and> (iso_date_text s \<or> strptime s = None)"
    and "\<And>s dt. map_of data ''deadline'' = Some (JStr s) \<Longrightarrow> strptime s = Some dt \<Longrightarrow>
            same_date dt now \<Longrightarrow> at_midnight now"
  shows "validate_task_data data now
           = Inr (map_option rejection_of (spec_validate data (date.truncate now)))"
proof -
  have n: "name_check data = (if spec_name_ok data then Pass else Reject (rejection_of BadName))"
    using assms(1) by (rule name_check_spec)
  have d: "deadline_check data now
             = (case spec_deadline_reason data (date.truncate now) of
                  None \<Rightarrow> Pass | Some r \<Rightarrow> Reject (rejection_of r))"
    using assms(2,3) by (rule deadline_check_spec)
  show ?thesis
    unfolding validate_first_failure n d priority_check_spec denylist_check_spec spec_validate_def
    by (simp split: option.split)
qed
text \<open>
  Outside these assumptions: a name of 100 letters and a newline is no name of 3 to 100
  characters, and the source accepts it.
\<close>

lemma name_of_101_characters_accepted:
  "\<not> spec_name_ok [(''name'', JStr (replicate 100 (CHR ''a'') @ [CHR 0x0A])),
                     (''priority'', JStr ''Low'')]
   \<and> validate_task_data [(''name'', JStr (replicate 100 (CHR ''a'') @ [CHR 0x0A])),
                          (''priority'', JStr ''Low'')] noon_2026_11_03 = Inr None"
  by code_simp

text \<open>
  Claim C9 says that the validation answers the first check that fails with its
  rejection and status 400, and that its result depends only on the payload and the
  current date. A name that is not a string fails check 1, and the source raises
  \<open>TypeError\<close> at \<open>re.match\<close> instead of rejecting: the client of the create request
  receives status 500. A deadline that is not a string does the same at \<open>strptime\<close>.
  And at noon and at midnight of the same date, the same payload is rejected and
  accepted.
\<close>

theorem validation_raises_on_non_string_values:
  "spec_validate [(''name'', JInt 5), (''priority'', JStr ''Low'')]
       \<lparr>year = 2026, month = 11, day = 3\<rparr> = Some BadName
   \<and> validate_task_data [(''name'', JInt 5), (''priority'', JStr ''Low'')] noon_2026_11_03
       = Inl TypeError
   \<and> fst (serve (CreateTask [(''name'', JInt 5), (''priority'', JStr ''Low'')])
             noon_2026_11_03 no_faults one_task_store)
       = (ErrorBody ''Internal server error'', 500)
   \<and> spec_validate [(''name'', JStr ''Write spec''), (''priority'', JStr ''High''),
                     (''deadline'', JInt 20990101)]
       \<lparr>year = 2026, month = 11, day = 3\<rparr> = Some BadDeadlineFormat
   \<and> validate_task_data [(''name'', JStr ''Write spec''), (''priority'', JStr ''High''),
                          (''deadline'', JInt 20990101)] noon_2026_11_03
       = Inl TypeError
   \<and> same_date noon_2026_11_03 midnight_2026_11_03
   \<and> validate_task_data [(''name'', JStr ''Write spec''), (''priority'', JStr ''High''),
                          (''deadline'', JStr ''2026-11-03'')] noon_2026_11_03
       = Inr (Some (ErrorBody ''Deadline cannot be in the past'', 400))
   \<and> validate_task_data [(''name'', JStr ''Write spec''), (''priority'', JStr ''High''),
                          (''deadline'', JStr ''2026-11-03'')] midnight_2026_11_03
       = Inr None"
  by code_simp

section \<open>Progress in update and create requests\<close>

lemma update_out_of_range_rejected:
  assumes "map_of data ''progress'' = Some (JInt n)" and "n < 0 \<or> 100 < n"
  shows "update_task task_id data f s = (Inr (ErrorBody ''Progress must be between 0-100'', 400), s)"
  using assms by (auto simp: update_task_def progress_out_of_range_def)

lemma tasks_try_with_connection:
  "tasks (snd (try_with_connection failure body f s)) = tasks s
   \<or> (\<exists>s1. tasks s1 = tasks s \<and> pending s1 = None
          \<and> tasks (snd (try_with_connection failure body f s)) = tasks (snd (body s1)))"
proof (cases "get_db_connection f s")
  case (Pair r s1)
  show ?thesis
  proof (cases r)
    case (Inl e)
    with Pair have "s1 = s"
      by (auto simp: get_db_connection_def split: option.splits if_splits)
    with Pair Inl show ?thesis by (simp add: try_with_connection_def)
  next
    case (Inr u)
    with Pair have s1: "tasks s1 = tasks s" "pending s1 = None"
      by (auto simp: get_db_connection_def log_event_def split: option.splits if_splits)
    obtain r2 s2 where b: "body s1 = (r2, s2)" by (cases "body s1")
    have "tasks (snd (try_with_connection failure body f s)) = tasks s2"
      using Pair Inr b
      by (cases r2)
         (simp_all add: try_with_connection_def release_db_connection_def log_event_def
            conn_rollback_def split: option.split)
    with s1 b show ?thesis by (metis snd_conv)
  qed
qed

lemma tasks_update_task_body:
  assumes "pending s1 = None"
  shows "tasks (snd (update_task_body task_id data f s1)) = tasks s1
   \<or> (\<exists>p. map_of data ''progress'' = Some (JInt p)
          \<and> tasks (snd (update_task_body task_id data f s1))
              = map (\<lambda>r. if row_id r = task_id then r\<lparr>row_progress := p\<rparr> else r) (tasks s1))"
proof (cases "cursor_error f")
  case (Some m)
  then show ?thesis by (simp add: update_task_body_def then_do_def conn_cursor_def)
next
  case None
  show ?thesis
  proof (cases "map_of data ''progress''")
    case no: None
    with None show ?thesis
      by (simp add: update_task_body_def then_do_def conn_cursor_def subscript_def raise_exn_def)
  next
    case (Some v)
    with None assms show ?thesis
      by (cases v)
         (simp_all add: update_task_body_def then_do_def conn_cursor_def subscript_def
            return_value_def execute_update_def as_integer_def current_table_def log_event_def
            conn_commit_def split: option.split)
  qed
qed

lemma update_keeps_progress_in_range:
  assumes inv: "\<forall>r \<in> set (tasks s). 0 \<le> row_progress r \<and> row_progress r \<le> 100"
  shows "\<forall>r \<in> set (tasks (snd (update_task task_id data f s))).
           0 \<le> row_progress r \<and> row_progress r \<le> 100"
proof (cases "progress_out_of_range data")
  case (Inl e)
  with inv show ?thesis by (simp add: update_task_def)
next
  case (Inr b)
  show ?thesis
  proof (cases b)
    case True
    with Inr inv show ?thesis by (simp add: update_task_def)
  next
    case False
    let ?body = "update_task_body task_id data f"
    have u: "update_task task_id data f s = try_with_connection ''Failed to update task'' ?body f s"
      using Inr False by (simp add: update_task_def)
    have range: "0 \<le> p \<and> p \<le> 100" if "map_of data ''progress'' = Some (JInt p)" for p
      using Inr False that by (simp add: progress_out_of_range_def)
    from tasks_try_with_connection [of "''Failed to update task''" ?body f s]
    show ?thesis
    proof
      assume "tasks (snd (try_with_connection ''Failed to update task'' ?body f s)) = tasks s"
      with inv u show ?thesis by simp
    next
      assume "\<exists>s1. tasks s1 = tasks s \<and> pending s1 = None
          \<and> tasks (snd (try_with_connection ''Failed to update task'' ?body f s))
              = tasks (snd (?body s1))"
      then obtain s1 where s1: "tasks s1 = tasks s" "pending s1 = None"
        and t: "tasks (snd (update_task task_id data f s)) = tasks (snd (?body s1))"
        using u by auto
      from tasks_update_task_body [OF s1(2), of task_id data f] show ?thesis
      proof
        assume "tasks (snd (?body s1)) = tasks s1"
        with inv s1 t show ?thesis by simp
      next
        assume "\<exists>p. map_of data ''progress'' = Some (JInt p)
          \<and> tasks (snd (?body s1))
              = map (\<lambda>r. if row_id r = task_id then r\<lparr>row_progress := p\<rparr> else r) (tasks s1)"
        then obtain p where p: "map_of data ''progress'' = Some (JInt p)"
          and m: "tasks (snd (?body s1))
              = map (\<lambda>r. if row_id r = task_id then r\<lparr>row_progress := p\<rparr> else r) (tasks s1)"
          by blast
        from range [OF p] inv show ?thesis
          unfolding t m s1(1) by auto
      qed
    qed
  qed
qed

text \<open>
  Claim C5 says that an update without the \<open>progress\<close> field is a no-op and causes no
  error. The range check lets such a payload through, and then \<open>data['progress']\<close>
  raises \<open>KeyError\<close> inside the \<open>try\<close> block: the handler rolls back and answers 500.
\<close>

theorem update_without_progress_fails:
  "progress_out_of_range [] = Inr False
   \<and> update_task 1 [] no_faults one_task_store
       = (Inr (ErrorBody ''Failed to update task'', 500),
          one_task_store\<lparr>trace := [Acquire, Rollback, Release]\<rparr>)"
  by code_simp

text \<open>
  Claim C2 says that no accepted operation writes a progress outside [0,100]. The
  validation of a create request does not look at \<open>progress\<close>, so the request below is
  accepted and the committed row has progress 150.
\<close>

theorem create_stores_progress_150:
  "add_task [(''name'', JStr ''Pour slab''), (''priority'', JStr ''High''),
             (''progress'', JInt 150)] noon_2026_11_03 no_faults empty_store
     = (Inr (CreatedBody ''Task added successfully'' 1, 201),
        \<lparr>tasks = [\<lparr>row_id = 1, row_name = ''Pour slab'', row_progress = 150,
                    row_assigned_to = None, row_deadline = None, row_priority = ''High''\<rparr>],
         next_id = 2, pending = None, in_use = 0,
         trace = [Acquire, Execute, Fetch, Commit, Release]\<rparr>)"
  by code_simp

section \<open>Update and delete of a task that does not exist\<close>

lemma no_row_count:
  "task_id \<notin> row_id ` set rows \<Longrightarrow> filter (\<lambda>r. row_id r = task_id) rows = []"
  by (auto simp: filter_empty_conv)

lemma no_row_update:
  "task_id \<notin> row_id ` set rows \<Longrightarrow>
     map (\<lambda>r. if row_id r = task_id then r\<lparr>row_progress := p\<rparr> else r) rows = rows"
  by (induction rows) auto

lemma update_task_not_found:
  assumes "task_id \<notin> row_id ` set (tasks s)" and "in_use s < maxconn"
    and "getconn_error f = None" and "cursor_error f = None" and "execute_error f = None"
    and "map_of data ''progress'' = Some (JInt p)" and "0 \<le> p" and "p \<le> 100"
  shows "update_task task_id data f s
           = (Inr (ErrorBody ''Task not found'', 404),
              s\<lparr>pending := None, trace := trace s @ [Acquire, Execute, Release]\<rparr>)"
  using assms
  by (simp add: update_task_def progress_out_of_range_def try_with_connection_def
        get_db_connection_def update_task_body_def then_do_def conn_cursor_def subscript_def
        return_value_def execute_update_def as_integer_def current_table_def log_event_def
        release_db_connection_def no_row_count)

lemma delete_task_not_found:
  assumes "task_id \<notin> row_id ` set (tasks s)" and "in_use s < maxconn"
    and "getconn_error f = None" and "cursor_error f = None" and "execute_error f = None"
  shows "delete_task task_id f s
           = (Inr (ErrorBody ''Task not found'', 404),
              s\<lparr>pending := None, trace := trace s @ [Acquire, Execute, Release]\<rparr>)"
  using assms
  by (simp add: delete_task_def try_with_connection_def
        get_db_connection_def delete_task_body_def then_do_def conn_cursor_def
        return_value_def execute_delete_def current_table_def log_event_def
        release_db_connection_def no_row_count)

text \<open>
  Claim C6, as stated, fails in one point: on the path of the 404 response the handlers
  do not call \<open>rollback\<close>. They return from inside the \<open>try\<close> block and only \<open>finally\<close>
  runs, so the events are acquire, execute, release.
\<close>

theorem not_found_without_rollback:
  "fst (update_task 7 [(''progress'', JInt 50)] no_faults one_task_store)
     = Inr (ErrorBody ''Task not found'', 404)
   \<and> trace (snd (update_task 7 [(''progress'', JInt 50)] no_faults one_task_store))
     = [Acquire, Execute, Release]
   \<and> Rollback \<notin> set (trace (snd (update_task 7 [(''progress'', JInt 50)] no_faults
                                  one_task_store)))
   \<and> fst (delete_task 7 no_faults one_task_store) = Inr (ErrorBody ''Task not found'', 404)
   \<and> trace (snd (delete_task 7 no_faults one_task_store)) = [Acquire, Execute, Release]
   \<and> Rollback \<notin> set (trace (snd (delete_task 7 no_faults one_task_store)))"
  by code_simp

text \<open>
  Claim C6, amended. For an \<open>id\<close> with no matching row (and, for the update, a progress
  in [0,100]), when the store raises no error and the pool has a free connection,
  \<open>update_task\<close> and \<open>delete_task\<close> each see an affected-row count of 0, release the
  connection without commit and without an explicit rollback, and answer 404; the
  table is unchanged, and the same call on the resulting state answers 404 again.
\<close>

theorem not_found_is_404_and_repeats:
  assumes "task_id \<notin> row_id ` set (tasks s)" and "in_use s < maxconn"
    and "getconn_error f = None" and "cursor_error f = None" and "execute_error f = None"
    and "map_of data ''progress'' = Some (JInt p)" and "0 \<le> p" and "p \<le> 100"
  shows "update_task task_id data f s
           = (Inr (ErrorBody ''Task not found'', 404),
              s\<lparr>pending := None, trace := trace s @ [Acquire, Execute, Release]\<rparr>)
       \<and> delete_task task_id f s
           = (Inr (ErrorBody ''Task not found'', 404),
              s\<lparr>pending := None, trace := trace s @ [Acquire, Execute, Release]\<rparr>)
       \<and> tasks (snd (update_task task_id data f s)) = tasks s
       \<and> tasks (snd (delete_task task_id f s)) = tasks s
       \<and> fst (update_task task_id data f (snd (update_task task_id data f s)))
           = Inr (ErrorBody ''Task not found'', 404)
       \<and> fst (delete_task task_id f (snd (delete_task task_id f s)))
           = Inr (ErrorBody ''Task not found'', 404)"
proof -
  let ?s' = "s\<lparr>pending := None, trace := trace s @ [Acquire, Execute, Release]\<rparr>"
  have u: "update_task task_id data f s = (Inr (ErrorBody ''Task not found'', 404), ?s')"
    using assms by (rule update_task_not_found)
  have d: "delete_task task_id f s = (Inr (ErrorBody ''Task not found'', 404), ?s')"
    using assms(1-5) by (rule delete_task_not_found)
  have again: "task_id \<notin> row_id ` set (tasks ?s')" "in_use ?s' < maxconn"
    using assms(1,2) by simp_all
  have u2: "fst (update_task task_id data f ?s') = Inr (ErrorBody ''Task not found'', 404)"
    using update_task_not_found [OF again assms(3-8)] by simp
  have d2: "fst (delete_task task_id f ?s') = Inr (ErrorBody ''Task not found'', 404)"
    using delete_task_not_found [OF again assms(3-5)] by simp
  show ?thesis using u d u2 d2 by simp
qed

theorem not_found_is_404_and_repeats_witness:
  "7 \<notin> row_id ` set (tasks one_task_store) \<and> in_use one_task_store < maxconn
   \<and> getconn_error no_faults = None \<and> cursor_error no_faults = None
   \<and> execute_error no_faults = None
   \<and> map_of [(''progress'', JInt 50)] ''progress'' = Some (JInt 50)
   \<and> (0::int) \<le> 50 \<and> (50::int) \<le> 100
   \<and> tasks (snd (update_task 7 [(''progress'', JInt 50)] no_faults one_task_store))
       = tasks one_task_store
   \<and> tasks (snd (delete_task 7 no_faults one_task_store)) = tasks one_task_store
   \<and> fst (update_task 7 [(''progress'', JInt 50)] no_faults
              (snd (update_task 7 [(''progress'', JInt 50)] no_faults one_task_store)))
       = Inr (ErrorBody ''Task not found'', 404)
   \<and> fst (delete_task 7 no_faults (snd (delete_task 7 no_faults one_task_store)))
       = Inr (ErrorBody ''Task not found'', 404)"
proof -
  have h1: "7 \<notin> row_id ` set (tasks one_task_store)" by (simp add: one_task_store_def)
  have h2: "in_use one_task_store < maxconn" by (simp add: one_task_store_def maxconn_def)
  have h3: "getconn_error no_faults = None" "cursor_error no_faults = None"
    "execute_error no_faults = None" by (simp_all add: no_faults_def)
  have h4: "map_of [(''progress'', JInt 50)] ''progress'' = Some (JInt 50)" by simp
  have h5: "(0::int) \<le> 50" "(50::int) \<le> 100" by simp_all
  from not_found_is_404_and_repeats [OF h1 h2 h3 h4 h5] h1 h2 h3 h4 h5
  show ?thesis by blast
qed

section \<open>Every acquired connection is released exactly once\<close>

lemma quiet_refl: "quiet s s"
  by (simp add: quiet_def)

lemma quiet_trans: "quiet s s1 \<Longrightarrow> quiet s1 s2 \<Longrightarrow> quiet s s2"
  by (auto simp: quiet_def)

lemma quiet_log_event:
  "ev \<noteq> Acquire \<Longrightarrow> ev \<noteq> Release \<Longrightarrow> in_use s' = in_use s \<Longrightarrow> trace s' = trace s
     \<Longrightarrow> quiet s (log_event ev s')"
  by (simp add: quiet_def log_event_def)

lemma quiet_return_value: "quiet s (snd (return_value x s))"
  by (simp add: return_value_def quiet_refl)

lemma quiet_subscript: "quiet s (snd (subscript data k s))"
  by (simp add: subscript_def return_value_def raise_exn_def quiet_refl split: option.split)

lemma quiet_conn_cursor: "quiet s (snd (conn_cursor f s))"
  by (simp add: conn_cursor_def quiet_refl split: option.split)

lemma quiet_conn_commit: "quiet s (snd (conn_commit f s))"
  by (simp add: conn_commit_def quiet_log_event split: option.split)

lemma quiet_conn_rollback: "quiet s (snd (conn_rollback f s))"
  by (simp add: conn_rollback_def quiet_log_event split: option.split)

lemma quiet_fetch: "quiet s (snd (fetch held f s))"
  by (simp add: fetch_def quiet_log_event split: option.split)

lemma quiet_execute_select: "quiet s (snd (execute_select f s))"
  by (simp add: execute_select_def quiet_log_event split: option.split)

lemma quiet_execute_delete: "quiet s (snd (execute_delete task_id f s))"
  by (simp add: execute_delete_def quiet_log_event split: option.split)

lemma quiet_execute_update: "quiet s (snd (execute_update p task_id f s))"
  by (simp add: execute_update_def quiet_log_event split: option.split)

lemma quiet_execute_insert: "quiet s (snd (execute_insert params f s))"
  by (cases params) (simp add: execute_insert_def quiet_log_event split: option.split)

lemma quiet_then_do:
  assumes "\<And>s. quiet s (snd (m s))" and "\<And>x s. quiet s (snd (k x s))"
  shows "quiet s (snd (then_do m k s))"
proof (cases "m s")
  case (Pair r s1)
  have q1: "quiet s s1" using assms(1) [of s] Pair by simp
  show ?thesis
  proof (cases r)
    case (Inl e)
    with Pair q1 show ?thesis by (simp add: then_do_def)
  next
    case (Inr x)
    with Pair have "then_do m k s = k x s1" by (simp add: then_do_def)
    with q1 assms(2) [of s1 x] show ?thesis by (simp add: quiet_trans)
  qed
qed

lemma quiet_get_tasks_body: "quiet s (snd (get_tasks_body f s))"
  unfolding get_tasks_body_def
  by (intro quiet_then_do quiet_conn_cursor quiet_execute_select quiet_fetch quiet_return_value)

lemma quiet_add_task_body: "quiet s (snd (add_task_body data f s))"
  unfolding add_task_body_def
  by (intro quiet_then_do quiet_conn_cursor quiet_subscript quiet_execute_insert quiet_fetch
        quiet_conn_commit quiet_return_value)

lemma quiet_if: "quiet s (snd (a s)) \<Longrightarrow> quiet s (snd (b s)) \<Longrightarrow> quiet s (snd ((if c then a else b) s))"
  by simp

lemma quiet_update_task_body: "quiet s (snd (update_task_body task_id data f s))"
  unfolding update_task_body_def
  by (intro quiet_then_do quiet_if quiet_conn_cursor quiet_subscript quiet_execute_update
        quiet_conn_commit quiet_return_value)

lemma quiet_delete_task_body: "quiet s (snd (delete_task_body task_id f s))"
  unfolding delete_task_body_def
  by (intro quiet_then_do quiet_if quiet_conn_cursor quiet_execute_delete
        quiet_conn_commit quiet_return_value)

lemma released_once_refl: "released_once s s"
  by (simp add: released_once_def)

lemma get_db_connection_cases:
  "(\<exists>e. get_db_connection f s = (Inl e, s))
   \<or> (get_db_connection f s
        = (Inr (), log_event Acquire (s\<lparr>in_use := Suc (in_use s), pending := None\<rparr>)))"
  by (simp add: get_db_connection_def split: option.split)

lemma released_once_bracket:
  assumes "quiet (log_event Acquire (s\<lparr>in_use := Suc (in_use s), pending := None\<rparr>)) s2"
  shows "released_once s (release_db_connection s2)"
proof -
  from assms obtain mid where
    u: "in_use s2 = Suc (in_use s)" and
    t: "trace s2 = (trace s @ [Acquire]) @ mid" and
    m: "Acquire \<notin> set mid" "Release \<notin> set mid"
    by (auto simp: quiet_def log_event_def)
  have "trace (release_db_connection s2) = trace s @ (Acquire # mid @ [Release])"
    using t by (simp add: release_db_connection_def log_event_def)
  moreover have "in_use (release_db_connection s2) = in_use s"
    using u by (simp add: release_db_connection_def log_event_def)
  ultimately show ?thesis
    using m unfolding released_once_def by blast
qed

lemma released_once_try_with_connection:
  assumes body: "\<And>s. quiet s (snd (body s))"
  shows "released_once s (snd (try_with_connection failure body f s))"
proof -
  let ?s1 = "log_event Acquire (s\<lparr>in_use := Suc (in_use s), pending := None\<rparr>)"
  from get_db_connection_cases [of f s] show ?thesis
  proof
    assume "\<exists>e. get_db_connection f s = (Inl e, s)"
    then show ?thesis by (auto simp: try_with_connection_def released_once_refl)
  next
    assume g: "get_db_connection f s = (Inr (), ?s1)"
    obtain r s2 where b: "body ?s1 = (r, s2)" by (cases "body ?s1")
    have q2: "quiet ?s1 s2" using body [of ?s1] b by simp
    show ?thesis
    proof (cases r)
      case (Inr resp)
      with g b q2 show ?thesis
        by (simp add: try_with_connection_def released_once_bracket)
    next
      case (Inl e)
      obtain r3 s3 where rb: "conn_rollback f s2 = (r3, s3)" by (cases "conn_rollback f s2")
      have "quiet s2 s3" using quiet_conn_rollback [of s2 f] rb by simp
      with q2 have "quiet ?s1 s3" by (rule quiet_trans)
      then have "released_once s (release_db_connection s3)" by (rule released_once_bracket)
      with g b Inl rb show ?thesis
        by (cases r3) (simp_all add: try_with_connection_def)
    qed
  qed
qed

lemma released_once_get_tasks: "released_once s (snd (get_tasks f s))"
proof -
  let ?s1 = "log_event Acquire (s\<lparr>in_use := Suc (in_use s), pending := None\<rparr>)"
  from get_db_connection_cases [of f s] show ?thesis
  proof
    assume "\<exists>e. get_db_connection f s = (Inl e, s)"
    then show ?thesis by (auto simp: get_tasks_def released_once_refl)
  next
    assume g: "get_db_connection f s = (Inr (), ?s1)"
    obtain r s2 where b: "get_tasks_body f ?s1 = (r, s2)" by (cases "get_tasks_body f ?s1")
    have "quiet ?s1 s2" using quiet_get_tasks_body [of ?s1 f] b by simp
    then have "released_once s (release_db_connection s2)" by (rule released_once_bracket)
    with g b show ?thesis
      by (cases r) (simp_all add: get_tasks_def)
  qed
qed

lemma released_once_add_task: "released_once s (snd (add_task data now f s))"
  by (simp add: add_task_def released_once_refl quiet_add_task_body
        released_once_try_with_connection split: sum.split option.split)

lemma released_once_update_task: "released_once s (snd (update_task task_id data f s))"
  by (simp add: update_task_def released_once_refl quiet_update_task_body
        released_once_try_with_connection split: sum.split bool.split)

lemma released_once_delete_task: "released_once s (snd (delete_task task_id f s))"
  by (simp add: delete_task_def quiet_delete_task_body released_once_try_with_connection)

lemma snd_serve: "snd (serve req now f s) = snd (run_handler req now f s)"
  by (simp add: serve_def split: prod.split sum.split)

text \<open>
  Claim C1. Whatever the request, the payload, the faults of the store and the state,
  the handler leaves the number of connections handed out as it found it, and the
  events it adds are either none (no connection was acquired) or an acquire first and a
  release last, with no other acquire or release between them.
\<close>

theorem acquired_connection_released_exactly_once:
  "in_use (snd (serve req now f s)) = in_use s
   \<and> (\<exists>tr. trace (snd (serve req now f s)) = trace s @ tr
          \<and> (tr = [] \<or> (\<exists>mid. tr = Acquire # mid @ [Release]
                          \<and> Acquire \<notin> set mid \<and> Release \<notin> set mid)))"
proof -
  have "released_once s (snd (run_handler req now f s))"
    by (cases req)
       (simp_all add: run_handler_def released_once_get_tasks released_once_add_task
          released_once_update_task released_once_delete_task)
  then show ?thesis by (simp add: released_once_def snd_serve)
qed

theorem acquired_connection_released_exactly_once_witness:
  "trace (snd (serve (DeleteTask 1) noon_2026_11_03
                 (no_faults\<lparr>execute_error := Some ''server closed the connection''\<rparr>)
                 one_task_store))
     = [Acquire, Execute, Rollback, Release]
   \<and> in_use (snd (serve (DeleteTask 1) noon_2026_11_03
                 (no_faults\<lparr>execute_error := Some ''server closed the connection''\<rparr>)
                 one_task_store))
     = in_use one_task_store"
proof -
  have t: "trace (snd (serve (DeleteTask 1) noon_2026_11_03
                 (no_faults\<lparr>execute_error := Some ''server closed the connection''\<rparr>)
                 one_task_store))
     = [Acquire, Execute, Rollback, Release]"
    by code_simp
  from acquired_connection_released_exactly_once
         [of "DeleteTask 1" noon_2026_11_03
             "no_faults\<lparr>execute_error := Some ''server closed the connection''\<rparr>"
             one_task_store] t
  show ?thesis by blast
qed


section \<open>Errors of the store during create, update and delete\<close>

text \<open>
  In \<open>app/main.py\<close>, an exception raised while the handler holds a connection is
  followed by a rollback and then the release, and the handler answers with its fixed
  message, or lets the error of a failed rollback leave (the client then receives
  \<open>internal_error\<close>).
\<close>

lemma store_error_rolls_back_then_releases:
  assumes "get_db_connection f s = (Inr (), s1)" and "body s1 = (Inl e, s2)"
  shows "trace (snd (try_with_connection failure body f s)) = trace s2 @ [Rollback, Release]
       \<and> (fst (try_with_connection failure body f s) = Inr (ErrorBody failure, 500)
          \<or> (\<exists>m. rollback_error f = Some m
                \<and> fst (try_with_connection failure body f s) = Inl (StoreError m)))"
  using assms
  by (simp add: try_with_connection_def conn_rollback_def release_db_connection_def
        log_event_def split: option.split)

text \<open>
  When \<open>get_db_connection\<close> itself raises there is no connection: nothing is rolled back
  or released, and the \<open>AttributeError\<close> of \<open>conn.rollback()\<close> leaves the handler.
\<close>

lemma connection_failure_leaves_handler:
  assumes "getconn_error f = Some m \<or> maxconn \<le> in_use s"
  shows "try_with_connection failure body f s = (Inl AttributeError, s)"
  using assms by (auto simp: try_with_connection_def get_db_connection_def)

text \<open>
  Claim C8 says that every store error is followed by a rollback and answered with a
  fixed message that does not show the text of the error. \<open>add_task\<close> of
  \<open>backend/app.py\<close> does neither: the error of the store is copied into the body, there
  is no rollback, and the connection stays open.
\<close>

theorem backend_create_echoes_store_error:
  "backend_add_task [(''name'', JStr ''Pour slab''), (''priority'', JStr ''High''),
                     (''assigned_to'', JNull)] noon_2026_11_03
       (no_faults\<lparr>execute_error := Some ''relation tasks does not exist''\<rparr>) empty_store
     = (Inr (ErrorBody ''Database error: relation tasks does not exist'', 500),
        empty_store\<lparr>in_use := 1, trace := [Acquire, Execute]\<rparr>)"
  by code_simp

section \<open>Listing the tasks\<close>

lemma digit_char_props:
  assumes "k < 10"
  shows "is_digit (digit_char k)" and "digit_val (digit_char k) = k"
    and "digit_char k \<noteq> CHR ''-''"
  using assms by (auto simp: is_digit_def digit_val_def digit_char_def char_of_eq_iff take_bit_eq_mod)

lemma month_two_digits:
  "\<forall>m \<in> set [1..<13]. month_directive [digit_char (m div 10 mod 10), digit_char (m mod 10)] = Some m"
  by code_simp

lemma day_two_digits:
  "\<forall>d \<in> set [1..<32]. day_directive [digit_char (d div 10 mod 10), digit_char (d mod 10)] = Some d"
  by code_simp


lemma days_in_month_le: "days_in_month y m \<le> 31"
  by (simp add: days_in_month_def)

lemma year_digits:
  fixes y :: nat
  assumes "y \<le> 9999"
  shows "1000 * (y div 1000 mod 10) + 100 * (y div 100 mod 10) + 10 * (y div 10 mod 10) + y mod 10 = y"
proof -
  define a where "a = y div 10"
  define b where "b = a div 10"
  define c where "c = b div 10"
  have b: "y div 100 = b" and c: "y div 1000 = c"
    by (simp_all add: a_def b_def c_def div_mult2_eq)
  have "c < 10" using assms unfolding c [symmetric] by simp
  then have c10: "c mod 10 = c" by simp
  have 1: "y = 10 * a + y mod 10" by (simp add: a_def)
  have 2: "a = 10 * b + a mod 10" by (simp add: b_def)
  have 3: "b = 10 * c + b mod 10" by (simp add: c_def)
  show ?thesis
    unfolding b c c10 a_def [symmetric] using 1 2 3 by linarith
qed

lemma strptime_ten_chars:
  assumes "a < 10" "b < 10" "c < 10" "e < 10"
    and "m1 \<noteq> CHR ''-''" "m2 \<noteq> CHR ''-''"
    and "month_directive [m1, m2] = Some m" "day_directive [d1, d2] = Some dy"
    and "1 \<le> 1000 * a + 100 * b + 10 * c + e"
    and "dy \<le> days_in_month (1000 * a + 100 * b + 10 * c + e) m"
  shows "strptime [digit_char a, digit_char b, digit_char c, digit_char e, CHR ''-'',
                   m1, m2, CHR ''-'', d1, d2]
           = Some \<lparr>year = 1000 * a + 100 * b + 10 * c + e, month = m, day = dy,
                   hour = 0, minute = 0, second = 0, microsecond = 0\<rparr>"
  using assms by (simp add: strptime_def digit_char_props Let_def)

lemma year_text_four_digits:
  assumes "1000 \<le> y"
  shows "year_text y = [digit_char (y div 1000 mod 10), digit_char (y div 100 mod 10),
                        digit_char (y div 10 mod 10), digit_char (y mod 10)]"
  using assms by (simp add: year_text_def)

lemma strftime_four_digits:
  assumes "1000 \<le> year d"
  shows "strftime d =
     [digit_char (year d div 1000 mod 10), digit_char (year d div 100 mod 10),
      digit_char (year d div 10 mod 10), digit_char (year d mod 10), CHR ''-'',
      digit_char (month d div 10 mod 10), digit_char (month d mod 10), CHR ''-'',
      digit_char (day d div 10 mod 10), digit_char (day d mod 10)]"
  by (simp add: strftime_def year_text_four_digits [OF assms])

lemma iso_date_text_strftime:
  assumes "1000 \<le> year d"
  shows "iso_date_text (strftime d)"
proof -
  have lt: "year d div 1000 mod 10 < 10" "year d div 100 mod 10 < 10" "year d div 10 mod 10 < 10"
    "year d mod 10 < 10" "month d div 10 mod 10 < 10" "month d mod 10 < 10"
    "day d div 10 mod 10 < 10" "day d mod 10 < 10"
    by simp_all
  show ?thesis
    unfolding strftime_four_digits [OF assms] iso_date_text_def
    using lt [THEN digit_char_props(1)] by simp
qed

lemma strptime_strftime:
  assumes "valid_date d" and "1000 \<le> year d"
  shows "strptime (strftime d)
           = Some \<lparr>year = year d, month = month d, day = day d,
                   hour = 0, minute = 0, second = 0, microsecond = 0\<rparr>"
proof -
  from assms have y: "1 \<le> year d" "year d \<le> 9999"
    and m: "month d \<in> set [1..<13]"
    and dd: "day d \<in> set [1..<32]" "day d \<le> days_in_month (year d) (month d)"
    using days_in_month_le [of "year d" "month d"] by (auto simp: valid_date_def)
  have mt: "month_directive [digit_char (month d div 10 mod 10), digit_char (month d mod 10)]
              = Some (month d)"
    using month_two_digits m by blast
  have dt: "day_directive [digit_char (day d div 10 mod 10), digit_char (day d mod 10)]
              = Some (day d)"
    using day_two_digits dd(1) by blast
  note yd = year_digits [OF y(2)]
  have lt: "year d div 1000 mod 10 < 10" "year d div 100 mod 10 < 10" "year d div 10 mod 10 < 10"
    "year d mod 10 < 10" "month d div 10 mod 10 < 10" "month d mod 10 < 10"
    by simp_all
  have "strptime (strftime d)
          = Some \<lparr>year = 1000 * (year d div 1000 mod 10) + 100 * (year d div 100 mod 10)
                          + 10 * (year d div 10 mod 10) + year d mod 10,
                  month = month d, day = day d,
                  hour = 0, minute = 0, second = 0, microsecond = 0\<rparr>"
    unfolding strftime_four_digits [OF assms(2)]
  proof (rule strptime_ten_chars [OF lt(1-4) _ _ mt dt])
    show "digit_char (month d div 10 mod 10) \<noteq> CHR ''-''" by (rule digit_char_props(3) [OF lt(5)])
    show "digit_char (month d mod 10) \<noteq> CHR ''-''" by (rule digit_char_props(3) [OF lt(6)])
    show "1 \<le> 1000 * (year d div 1000 mod 10) + 100 * (year d div 100 mod 10)
                          + 10 * (year d div 10 mod 10) + year d mod 10"
      unfolding yd by (rule y(1))
    show "day d \<le> days_in_month (1000 * (year d div 1000 mod 10) + 100 * (year d div 100 mod 10)
                          + 10 * (year d div 10 mod 10) + year d mod 10) (month d)"
      unfolding yd by (rule dd(2))
  qed
  then show ?thesis unfolding yd .
qed

lemma get_tasks_success:
  assumes "getconn_error f = None" and "in_use s < maxconn" and "cursor_error f = None"
    and "execute_error f = None" and "fetch_error f = None"
  shows "fst (get_tasks f s) = Inr (TasksBody (map jsonify_task (sort_key row_id (tasks s))), 200)"
  using assms
  by (simp add: get_tasks_def get_db_connection_def get_tasks_body_def then_do_def
        conn_cursor_def execute_select_def fetch_def return_value_def current_table_def
        log_event_def)

lemma get_tasks_failure:
  assumes "getconn_error f \<noteq> None \<or> maxconn \<le> in_use s \<or> cursor_error f \<noteq> None
           \<or> execute_error f \<noteq> None \<or> fetch_error f \<noteq> None"
  shows "fst (get_tasks f s) = Inr (ErrorBody ''Failed to retrieve tasks'', 500)"
proof (cases "get_db_connection f s")
  case (Pair r s1)
  show ?thesis
  proof (cases r)
    case (Inl e)
    with Pair show ?thesis by (simp add: get_tasks_def)
  next
    case (Inr u)
    with Pair have ok: "getconn_error f = None" "\<not> maxconn \<le> in_use s"
      by (auto simp: get_db_connection_def split: option.splits if_splits)
    with assms have "cursor_error f \<noteq> None \<or> execute_error f \<noteq> None \<or> fetch_error f \<noteq> None"
      by blast
    then have "\<exists>e s2. get_tasks_body f s1 = (Inl e, s2)"
      by (auto simp: get_tasks_body_def then_do_def conn_cursor_def execute_select_def
            fetch_def split: option.splits)
    with Pair Inr show ?thesis by (auto simp: get_tasks_def)
  qed
qed

lemma tasks_get_tasks: "tasks (snd (get_tasks f s)) = tasks s"
  by (simp add: get_tasks_def get_db_connection_def get_tasks_body_def then_do_def
        conn_cursor_def execute_select_def fetch_def return_value_def
        release_db_connection_def log_event_def split: option.split)

lemma sorted_listing: "sorted (map j_id (map jsonify_task (sort_key row_id rows)))"
proof -
  have "j_id \<circ> jsonify_task = row_id"
    by (rule ext) (simp add: jsonify_task_def)
  then have eq: "map j_id (map jsonify_task (sort_key row_id rows))
               = map row_id (sort_key row_id rows)"
    by (simp only: map_map)
  show ?thesis unfolding eq by (rule sorted_sort_key)
qed

lemma full_listing:
  "mset (map jsonify_task (sort_key row_id rows)) = image_mset jsonify_task (mset rows)"
  by simp

lemma deadline_text_from_year_1000:
  assumes "row_deadline r = Some d" and "valid_date d" and "1000 \<le> year d"
  shows "\<exists>t. j_deadline (jsonify_task r) = Some t \<and> iso_date_text t
             \<and> strptime t = Some \<lparr>year = year d, month = month d, day = day d,
                                   hour = 0, minute = 0, second = 0, microsecond = 0\<rparr>"
  using assms by (simp add: jsonify_task_def iso_date_text_strftime strptime_strftime)

lemma deadline_absent_is_null:
  assumes "row_deadline r = None"
  shows "j_deadline (jsonify_task r) = None"
  using assms by (simp add: jsonify_task_def)

lemma deadline_text_below_year_1000:
  assumes "row_deadline r = Some d" and "year d < 1000"
  shows "\<exists>t. j_deadline (jsonify_task r) = Some t \<and> length t < 10 \<and> \<not> iso_date_text t"
  using assms by (simp add: jsonify_task_def strftime_def year_text_def iso_date_text_def)


end
